theory Spec2Isabelle
  imports Main
begin

section \<open>JavaScript strings\<close>

text \<open>
  A JavaScript string is a sequence of UTF-16 code units. A code unit is modelled by its
  number, so that the Chinese message texts of the server and the test
  for a code unit between U+4E00 and U+9FA5 can be written down exactly. \<open>ascii\<close> embeds an ASCII literal.
\<close>

type_synonym ustring = "nat list"

abbreviation ascii :: "string \<Rightarrow> ustring" where
  "ascii s \<equiv> map of_char s"

text \<open>\<^verbatim>\<open>x || d\<close> on strings: the empty string is falsy.\<close>

definition or_str :: "ustring \<Rightarrow> ustring \<Rightarrow> ustring" where
  "or_str x d = (if x = [] then d else x)"

text \<open>\<^verbatim>\<open>x || d\<close> where \<open>x\<close> may be \<^verbatim>\<open>undefined\<close>.\<close>

definition or_opt :: "ustring option \<Rightarrow> ustring \<Rightarrow> ustring" where
  "or_opt x d = (case x of None \<Rightarrow> d | Some s \<Rightarrow> or_str s d)"

text \<open>Truthiness of an optional string.\<close>

definition truthy :: "ustring option \<Rightarrow> bool" where
  "truthy x = (case x of None \<Rightarrow> False | Some s \<Rightarrow> s \<noteq> [])"

text \<open>A template literal prints \<^verbatim>\<open>undefined\<close> for an absent value.\<close>

definition show_opt :: "ustring option \<Rightarrow> ustring" where
  "show_opt x = (case x of None \<Rightarrow> ascii ''undefined'' | Some s \<Rightarrow> s)"

definition startsWith :: "ustring \<Rightarrow> ustring \<Rightarrow> bool" where
  "startsWith s p = (take (length p) s = p)"

text \<open>\<^verbatim>\<open>s.includes(p)\<close>.\<close>

fun includes_str :: "ustring \<Rightarrow> ustring \<Rightarrow> bool" where
  "includes_str [] p = (p = [])"
| "includes_str (c # cs) p = (take (length p) (c # cs) = p \<or> includes_str cs p)"

text \<open>\<^verbatim>\<open>s.split(sep)\<close> for a separator of one code unit.\<close>

fun split :: "nat \<Rightarrow> ustring \<Rightarrow> ustring list" where
  "split sep [] = [[]]"
| "split sep (c # cs) =
     (if c = sep then [] # split sep cs
      else (case split sep cs of [] \<Rightarrow> [[c]] | p # ps \<Rightarrow> (c # p) # ps))"

text \<open>\<^verbatim>\<open>xs.join(sep)\<close>.\<close>

fun join :: "ustring \<Rightarrow> ustring list \<Rightarrow> ustring" where
  "join sep [] = []"
| "join sep [x] = x"
| "join sep (x # y # ys) = x @ sep @ join sep (y # ys)"

text \<open>\<^verbatim>\<open>String(n)\<close> for a non-negative integer.\<close>

fun decimal :: "nat \<Rightarrow> ustring" where
  "decimal n = (if n < 10 then [0x30 + n] else decimal (n div 10) @ [0x30 + n mod 10])"

definition nl :: ustring where
  "nl = [0x0A]"

definition NA :: ustring where
  "NA = ascii ''N/A''"

section \<open>Message texts\<close>

text \<open>
  The literal parts of the template strings of the three source files, by code unit.
\<close>

text \<open>"Using the API key from the command-line arguments"\<close>

definition log_api_key :: ustring where
  "log_api_key = [0x4F7F, 0x7528, 0x547D, 0x4EE4, 0x884C, 0x53C2, 0x6570, 0x4E2D, 0x7684]
     @ ascii ''API'' @ [0x5BC6, 0x94A5]"

text \<open>"Using the API URL from the command-line arguments: "\<close>

definition log_api_url :: ustring where
  "log_api_url = [0x4F7F, 0x7528, 0x547D, 0x4EE4, 0x884C, 0x53C2, 0x6570, 0x4E2D, 0x7684]
     @ ascii '' API URL: ''"

text \<open>"Warning: HEFENG_API_KEY not provided. API calls may fail. Provide it with --apiKey=<your key>."\<close>

definition warn_no_key :: ustring where
  "warn_no_key = [0x8B66, 0x544A] @ ascii '': '' @ [0x672A, 0x63D0, 0x4F9B]
     @ ascii '' HEFENG_API_KEY'' @ [0x3002] @ ascii ''API ''
     @ [0x8C03, 0x7528, 0x53EF, 0x80FD, 0x4F1A, 0x5931, 0x8D25, 0x3002, 0x8BF7, 0x4F7F, 0x7528]
     @ ascii '' --apiKey=<'' @ [0x4F60, 0x7684, 0x5BC6, 0x94A5] @ ascii ''> ''
     @ [0x53C2, 0x6570, 0x63D0, 0x4F9B, 0x3002]"

text \<open>"Warning: HEFENG_WEATHER_API_URL (weather API base URL) not provided. ... Provide it with --apiUrl=<API base URL>."\<close>

definition warn_no_weather_url :: ustring where
  "warn_no_weather_url = [0x8B66, 0x544A] @ ascii '': '' @ [0x672A, 0x63D0, 0x4F9B]
     @ ascii '' HEFENG_WEATHER_API_URL ('' @ [0x5929, 0x6C14] @ ascii ''API'' @ [0x57FA, 0x7840]
     @ ascii ''URL)'' @ [0x3002, 0x5929, 0x6C14] @ ascii '' API ''
     @ [0x8C03, 0x7528, 0x53EF, 0x80FD, 0x4F1A, 0x5931, 0x8D25, 0x3002, 0x8BF7, 0x4F7F, 0x7528]
     @ ascii '' --apiUrl=<API'' @ [0x57FA, 0x7840] @ ascii ''URL> ''
     @ [0x53C2, 0x6570, 0x63D0, 0x4F9B, 0x3002]"

text \<open>"Warning: HEFENG_GEO_API_URL (geo API base URL) not configured. ... Provide it with --apiUrl=<API base URL>."\<close>

definition warn_no_geo_url :: ustring where
  "warn_no_geo_url = [0x8B66, 0x544A] @ ascii '': '' @ [0x672A, 0x914D, 0x7F6E]
     @ ascii '' HEFENG_GEO_API_URL ('' @ [0x5730, 0x7406, 0x4F4D, 0x7F6E] @ ascii ''API''
     @ [0x57FA, 0x7840] @ ascii ''URL)'' @ [0x3002, 0x57CE, 0x5E02] @ ascii ''ID''
     @ [0x67E5, 0x8BE2, 0x529F, 0x80FD, 0x53EF, 0x80FD, 0x53D7, 0x5F71, 0x54CD, 0x3002, 0x8BF7, 0x4F7F, 0x7528]
     @ ascii '' --apiUrl=<API'' @ [0x57FA, 0x7840] @ ascii ''URL> ''
     @ [0x53C2, 0x6570, 0x63D0, 0x4F9B, 0x3002]"

text \<open>"Error: geo API base URL not configured. Ask the administrator to set --apiUrl."\<close>

definition txt_geo_unconfigured :: ustring where
  "txt_geo_unconfigured = [0x9519, 0x8BEF, 0xFF1A, 0x5730, 0x7406, 0x4F4D, 0x7F6E]
     @ ascii ''API'' @ [0x57FA, 0x7840] @ ascii ''URL''
     @ [0x672A, 0x914D, 0x7F6E, 0x3002, 0x8BF7, 0x7BA1, 0x7406, 0x5458, 0x4F7F, 0x7528]
     @ ascii '' --apiUrl '' @ [0x914D, 0x7F6E, 0x3002]"

text \<open>"Error: weather API base URL not configured. Ask the administrator to set --apiUrl."\<close>

definition txt_weather_unconfigured :: ustring where
  "txt_weather_unconfigured = [0x9519, 0x8BEF, 0xFF1A, 0x5929, 0x6C14] @ ascii ''API''
     @ [0x57FA, 0x7840] @ ascii ''URL''
     @ [0x672A, 0x914D, 0x7F6E, 0x3002, 0x8BF7, 0x7BA1, 0x7406, 0x5458, 0x4F7F, 0x7528]
     @ ascii '' --apiUrl '' @ [0x914D, 0x7F6E, 0x3002]"

text \<open>"Cannot find city [quote]"\<close>

definition txt_not_found_city :: ustring where
  "txt_not_found_city = [0x65E0, 0x6CD5, 0x627E, 0x5230, 0x57CE, 0x5E02] @ ascii '' '' @ [0x22]"

text \<open>"Cannot find [quote]"\<close>

definition txt_not_found :: ustring where
  "txt_not_found = [0x65E0, 0x6CD5, 0x627E, 0x5230] @ ascii '' '' @ [0x22]"

text \<open>"[quote] location information. Check the city name or the API configuration."\<close>

definition txt_not_found_tail_index :: ustring where
  "txt_not_found_tail_index = [0x22] @ ascii '' ''
     @ [0x7684, 0x4F4D, 0x7F6E, 0x4FE1, 0x606F, 0x3002, 0x8BF7, 0x68C0, 0x67E5, 0x57CE, 0x5E02, 0x540D, 0x79F0, 0x6216]
     @ ascii ''API'' @ [0x914D, 0x7F6E, 0x3002]"

text \<open>"[quote] location information. Make sure the input is a pinyin/English city name, a valid LocationID, an Adcode or coordinates, and check the API configuration."\<close>

definition txt_not_found_tail_000 :: ustring where
  "txt_not_found_tail_000 = [0x22] @ ascii '' ''
     @ [0x7684, 0x4F4D, 0x7F6E, 0x4FE1, 0x606F, 0x3002, 0x8BF7, 0x786E, 0x4FDD, 0x8F93, 0x5165, 0x4E3A, 0x62FC, 0x97F3]
     @ ascii ''/'' @ [0x82F1, 0x6587, 0x57CE, 0x5E02, 0x540D, 0x3001, 0x6709, 0x6548, 0x7684]
     @ ascii ''LocationID'' @ [0x3001] @ ascii ''Adcode''
     @ [0x6216, 0x7ECF, 0x7EAC, 0x5EA6, 0x5750, 0x6807, 0xFF0C, 0x5E76, 0x68C0, 0x67E5]
     @ ascii ''API'' @ [0x914D, 0x7F6E, 0x3002]"

text \<open>"[quote] location information. Check the input, the API configuration or the server log."\<close>

definition txt_not_found_tail_001 :: ustring where
  "txt_not_found_tail_001 = [0x22] @ ascii '' ''
     @ [0x7684, 0x4F4D, 0x7F6E, 0x4FE1, 0x606F, 0x3002, 0x8BF7, 0x68C0, 0x67E5, 0x8F93, 0x5165, 0x3001]
     @ ascii ''API''
     @ [0x914D, 0x7F6E, 0x6216, 0x67E5, 0x770B, 0x670D, 0x52A1, 0x5668, 0x65E5, 0x5FD7, 0x83B7, 0x53D6, 0x66F4, 0x591A, 0x8BE6, 0x60C5, 0x3002]"

text \<open>"City: "\<close>

definition lbl_city :: ustring where
  "lbl_city = [0x57CE, 0x5E02] @ ascii '': ''"

text \<open>"Region: "\<close>

definition lbl_region :: ustring where
  "lbl_region = [0x6240, 0x5C5E, 0x533A, 0x57DF] @ ascii '': ''"

text \<open>"Latitude: "\<close>

definition lbl_lat :: ustring where
  "lbl_lat = [0x7EAC, 0x5EA6] @ ascii '': ''"

text \<open>"Longitude: "\<close>

definition lbl_lon :: ustring where
  "lbl_lon = [0x7ECF, 0x5EA6] @ ascii '': ''"

text \<open>"Cannot get "\<close>

definition txt_cannot_get :: ustring where
  "txt_cannot_get = [0x65E0, 0x6CD5, 0x83B7, 0x53D6] @ ascii '' ''"

text \<open>" weather data (API Code: "\<close>

definition txt_weather_data_code :: ustring where
  "txt_weather_data_code = ascii '' '' @ [0x7684, 0x5929, 0x6C14, 0x6570, 0x636E]
     @ ascii '' (API Code: ''"

text \<open>" weather data (API Code/Status: "\<close>

definition txt_weather_data_status :: ustring where
  "txt_weather_data_status = ascii '' '' @ [0x7684, 0x5929, 0x6C14, 0x6570, 0x636E]
     @ ascii '' (API Code/Status: ''"

text \<open>"Could not get data, check the place name or the API configuration."\<close>

definition txt_default_error :: ustring where
  "txt_default_error =
    [0x672A, 0x80FD, 0x83B7, 0x53D6, 0x6570, 0x636E, 0xFF0C, 0x8BF7, 0x68C0, 0x67E5, 0x5730, 0x70B9, 0x540D, 0x79F0, 0x6216]
     @ ascii ''API'' @ [0x914D, 0x7F6E, 0x3002]"

text \<open>" (input [quote]"\<close>

definition txt_note_direct_a :: ustring where
  "txt_note_direct_a = ascii '' ('' @ [0x8F93, 0x5165] @ ascii '' '' @ [0x22]"

text \<open>"[quote] was used directly for the query)"\<close>

definition txt_note_direct_b :: ustring where
  "txt_note_direct_b = [0x22] @ ascii '' ''
     @ [0x88AB, 0x76F4, 0x63A5, 0x4F7F, 0x7528, 0x67E5, 0x8BE2] @ ascii '')''"

text \<open>" (tried to convert [quote]"\<close>

definition txt_note_pinyin_a :: ustring where
  "txt_note_pinyin_a = ascii '' ('' @ [0x5DF2, 0x5C1D, 0x8BD5, 0x5C06] @ ascii '' '' @ [0x22]"

text \<open>"[quote] to pinyin [quote]"\<close>

definition txt_note_pinyin_b :: ustring where
  "txt_note_pinyin_b = [0x22] @ ascii '' '' @ [0x8F6C, 0x4E3A, 0x62FC, 0x97F3] @ ascii '' ''
     @ [0x22]"

text \<open>"[quote] for the query)"\<close>

definition txt_note_pinyin_c :: ustring where
  "txt_note_pinyin_c = [0x22] @ ascii '' '' @ [0x8FDB, 0x884C, 0x67E5, 0x8BE2] @ ascii '')''"

text \<open>"Place: "\<close>

definition lbl_place :: ustring where
  "lbl_place = [0x5730, 0x70B9] @ ascii '': ''"

text \<open>"Observation time: "\<close>

definition lbl_obsTime :: ustring where
  "lbl_obsTime = [0x89C2, 0x6D4B, 0x65F6, 0x95F4] @ ascii '': ''"

text \<open>"Weather: "\<close>

definition lbl_weather :: ustring where
  "lbl_weather = [0x5929, 0x6C14] @ ascii '': ''"

text \<open>"Temperature: "\<close>

definition lbl_temp :: ustring where
  "lbl_temp = [0x6E29, 0x5EA6] @ ascii '': ''"

text \<open>degree sign, "C"\<close>

definition unit_celsius :: ustring where
  "unit_celsius = [0xB0] @ ascii ''C''"

text \<open>"Feels like: "\<close>

definition lbl_feelsLike :: ustring where
  "lbl_feelsLike = [0x4F53, 0x611F, 0x6E29, 0x5EA6] @ ascii '': ''"

text \<open>"Wind direction: "\<close>

definition lbl_windDir :: ustring where
  "lbl_windDir = [0x98CE, 0x5411] @ ascii '': ''"

text \<open>"level" (unit of the wind scale)\<close>

definition unit_scale :: ustring where
  "unit_scale = [0x7EA7]"

text \<open>"Wind force: "\<close>

definition lbl_windScale :: ustring where
  "lbl_windScale = [0x98CE, 0x529B] @ ascii '': ''"

text \<open>"Relative humidity: "\<close>

definition lbl_humidity :: ustring where
  "lbl_humidity = [0x76F8, 0x5BF9, 0x6E7F, 0x5EA6] @ ascii '': ''"

text \<open>"Precipitation of the current hour: "\<close>

definition lbl_precip_hour :: ustring where
  "lbl_precip_hour = [0x5F53, 0x524D, 0x5C0F, 0x65F6, 0x7D2F, 0x8BA1, 0x964D, 0x6C34, 0x91CF]
     @ ascii '': ''"

text \<open>"Air pressure: "\<close>

definition lbl_pressure :: ustring where
  "lbl_pressure = [0x5927, 0x6C14, 0x538B, 0x5F3A] @ ascii '': ''"

text \<open>"Visibility: "\<close>

definition lbl_vis :: ustring where
  "lbl_vis = [0x80FD, 0x89C1, 0x5EA6] @ ascii '': ''"

text \<open>"km"\<close>

definition unit_km :: ustring where
  "unit_km = [0x516C, 0x91CC]"

text \<open>"Getting "\<close>

definition txt_get :: ustring where
  "txt_get = [0x83B7, 0x53D6] @ ascii '' ''"

text \<open>" real-time weather data: the data structure is incomplete or invalid. (Code: "\<close>

definition txt_now_incomplete :: ustring where
  "txt_now_incomplete = ascii '' ''
     @ [0x7684, 0x5B9E, 0x65F6, 0x5929, 0x6C14, 0x6570, 0x636E, 0x65F6, 0xFF0C, 0x6570, 0x636E, 0x7ED3, 0x6784, 0x4E0D, 0x5B8C, 0x6574, 0x6216, 0x65E0, 0x6548, 0x3002]
     @ ascii '' (Code: ''"

text \<open>"Time: "\<close>

definition lbl_time :: ustring where
  "lbl_time = [0x65F6, 0x95F4] @ ascii '': ''"

text \<open>"  Weather: "\<close>

definition lbl_h_weather :: ustring where
  "lbl_h_weather = ascii ''  '' @ [0x5929, 0x6C14] @ ascii '': ''"

text \<open>", temperature: "\<close>

definition lbl_h_temp :: ustring where
  "lbl_h_temp = ascii '', '' @ [0x6E29, 0x5EA6] @ ascii '': ''"

text \<open>"  Humidity: "\<close>

definition lbl_h_humidity :: ustring where
  "lbl_h_humidity = ascii ''  '' @ [0x6E7F, 0x5EA6] @ ascii '': ''"

text \<open>"%, probability of precipitation: "\<close>

definition lbl_h_pop :: ustring where
  "lbl_h_pop = ascii ''%, '' @ [0x964D, 0x6C34, 0x6982, 0x7387] @ ascii '': ''"

text \<open>"  Wind direction: "\<close>

definition lbl_h_wind :: ustring where
  "lbl_h_wind = ascii ''  '' @ [0x98CE, 0x5411] @ ascii '': ''"

text \<open>"hour forecast:"\<close>

definition txt_hourly_header :: ustring where
  "txt_hourly_header = [0x5C0F, 0x65F6, 0x9884, 0x62A5] @ ascii '':''"

text \<open>" hourly forecast, or the region has no such data."\<close>

definition txt_hourly_unavailable_index :: ustring where
  "txt_hourly_unavailable_index = ascii '' ''
     @ [0x7684, 0x9010, 0x5C0F, 0x65F6, 0x9884, 0x62A5, 0xFF0C, 0x6216, 0x8BE5, 0x5730, 0x533A, 0x65E0, 0x6B64, 0x9879, 0x6570, 0x636E, 0x3002]"

text \<open>" hourly forecast, the data is incomplete or the region has no such data. (Code: "\<close>

definition txt_hourly_unavailable :: ustring where
  "txt_hourly_unavailable = ascii '' ''
     @ [0x7684, 0x9010, 0x5C0F, 0x65F6, 0x9884, 0x62A5, 0xFF0C, 0x6570, 0x636E, 0x4E0D, 0x5B8C, 0x6574, 0x6216, 0x8BE5, 0x5730, 0x533A, 0x65E0, 0x6B64, 0x9879, 0x6570, 0x636E, 0x3002]
     @ ascii '' (Code: ''"

text \<open>"Date: "\<close>

definition lbl_date :: ustring where
  "lbl_date = [0x65E5, 0x671F] @ ascii '': ''"

text \<open>" (sunrise: "\<close>

definition lbl_sunrise :: ustring where
  "lbl_sunrise = ascii '' ('' @ [0x65E5, 0x51FA] @ ascii '': ''"

text \<open>", sunset: "\<close>

definition lbl_sunset :: ustring where
  "lbl_sunset = ascii '', '' @ [0x65E5, 0x843D] @ ascii '': ''"

text \<open>"  Weather by day: "\<close>

definition lbl_textDay :: ustring where
  "lbl_textDay = ascii ''  '' @ [0x767D, 0x5929, 0x5929, 0x6C14] @ ascii '': ''"

text \<open>", weather by night: "\<close>

definition lbl_textNight :: ustring where
  "lbl_textNight = ascii '', '' @ [0x591C, 0x95F4, 0x5929, 0x6C14] @ ascii '': ''"

text \<open>"  Highest temperature: "\<close>

definition lbl_tempMax :: ustring where
  "lbl_tempMax = ascii ''  '' @ [0x6700, 0x9AD8, 0x6E29, 0x5EA6] @ ascii '': ''"

text \<open>degree sign, "C, lowest temperature: "\<close>

definition lbl_tempMin :: ustring where
  "lbl_tempMin = [0xB0] @ ascii ''C, '' @ [0x6700, 0x4F4E, 0x6E29, 0x5EA6] @ ascii '': ''"

text \<open>"  Relative humidity: "\<close>

definition lbl_d_humidity :: ustring where
  "lbl_d_humidity = ascii ''  '' @ [0x76F8, 0x5BF9, 0x6E7F, 0x5EA6] @ ascii '': ''"

text \<open>"%, precipitation: "\<close>

definition lbl_d_precip :: ustring where
  "lbl_d_precip = ascii ''%, '' @ [0x964D, 0x6C34, 0x91CF] @ ascii '': ''"

text \<open>"  Wind by day: "\<close>

definition lbl_windDay :: ustring where
  "lbl_windDay = ascii ''  '' @ [0x767D, 0x5929, 0x98CE, 0x5411] @ ascii '': ''"

text \<open>"  Wind by night: "\<close>

definition lbl_windNight :: ustring where
  "lbl_windNight = ascii ''  '' @ [0x591C, 0x95F4, 0x98CE, 0x5411] @ ascii '': ''"

text \<open>"  UV index: "\<close>

definition lbl_uv :: ustring where
  "lbl_uv = ascii ''  '' @ [0x7D2B, 0x5916, 0x7EBF, 0x6307, 0x6570] @ ascii '': ''"

text \<open>"forecast:"\<close>

definition txt_daily_header :: ustring where
  "txt_daily_header = [0x9884, 0x62A5] @ ascii '':''"

text \<open>" weather forecast, or the region has no such data."\<close>

definition txt_daily_unavailable_index :: ustring where
  "txt_daily_unavailable_index = ascii '' ''
     @ [0x5929, 0x6C14, 0x9884, 0x62A5, 0xFF0C, 0x6216, 0x8BE5, 0x5730, 0x533A, 0x65E0, 0x6B64, 0x9879, 0x6570, 0x636E, 0x3002]"

text \<open>" weather forecast, the data is incomplete or the region has no such data. (Code: "\<close>

definition txt_daily_unavailable :: ustring where
  "txt_daily_unavailable = ascii '' ''
     @ [0x5929, 0x6C14, 0x9884, 0x62A5, 0xFF0C, 0x6570, 0x636E, 0x4E0D, 0x5B8C, 0x6574, 0x6216, 0x8BE5, 0x5730, 0x533A, 0x65E0, 0x6B64, 0x9879, 0x6570, 0x636E, 0x3002]
     @ ascii '' (Code: ''"

text \<open>" of " (the particle U+7684 between spaces)\<close>

definition txt_of :: ustring where
  "txt_of = ascii '' '' @ [0x7684] @ ascii '' ''"

text \<open>" weather data has a wrong or incomplete format. (Code: "\<close>

definition txt_malformed_index :: ustring where
  "txt_malformed_index = ascii '' ''
     @ [0x7684, 0x5929, 0x6C14, 0x6570, 0x636E, 0x683C, 0x5F0F, 0x4E0D, 0x6B63, 0x786E, 0x6216, 0x4E0D, 0x5B8C, 0x6574, 0x3002]
     @ ascii '' (Code: ''"

text \<open>"Invalid input arguments: "\<close>

definition txt_invalid_args :: ustring where
  "txt_invalid_args = [0x8F93, 0x5165, 0x53C2, 0x6570, 0x65E0, 0x6548] @ ascii '': ''"

text \<open>"Running tool [quote]"\<close>

definition txt_tool_a :: ustring where
  "txt_tool_a = [0x6267, 0x884C, 0x5DE5, 0x5177] @ ascii '' '' @ [0x22]"

text \<open>"[quote] hit an internal error: "\<close>

definition txt_tool_b :: ustring where
  "txt_tool_b = [0x22] @ ascii '' '' @ [0x65F6, 0x53D1, 0x751F, 0x5185, 0x90E8, 0x9519, 0x8BEF]
     @ ascii '': ''"

section \<open>Configuration and start-up\<close>

text \<open>
  The repository holds three versions of the server: \<^verbatim>\<open>src/index.ts\<close> (1.2.5),
  \<^verbatim>\<open>part_001\<close> (1.3.3, with transliteration) and \<^verbatim>\<open>part_000\<close> (1.6.2, key sent as a
  header). Functions that differ between them take the version as their first argument.
\<close>

datatype src = Index_ts | Part_000 | Part_001

record config =
  HEFENG_WEATHER_API_URL :: ustring
  HEFENG_GEO_API_URL :: ustring
  HEFENG_API_KEY :: ustring

text \<open>
  \<^verbatim>\<open>process.argv.find(arg => arg.startsWith(prefix))\<close>, then \<^verbatim>\<open>split('=')[1]\<close>; the value is
  used only when it is truthy.
\<close>

definition arg_value :: "ustring \<Rightarrow> ustring list \<Rightarrow> ustring option" where
  "arg_value prefix argv =
     (case find (\<lambda>arg. startsWith arg prefix) argv of
        None \<Rightarrow> None
      | Some a \<Rightarrow>
          (case split 0x3D a of
             _ # v # _ \<Rightarrow> (if v = [] then None else Some v)
           | _ \<Rightarrow> None))"

text \<open>The line written by \<^verbatim>\<open>console.log\<close> when a key is given.\<close>

definition key_log_line :: "src \<Rightarrow> ustring \<Rightarrow> ustring" where
  "key_log_line s apiKey =
     (case s of
        Part_000 \<Rightarrow> log_api_key
      | _ \<Rightarrow> log_api_key @ ascii '': '' @ apiKey)"

text \<open>
  The module's top level: the configuration it leaves and the lines it writes with
  \<^verbatim>\<open>console.log\<close> and \<^verbatim>\<open>console.warn\<close>. The console output of the request function and of
  the handler is not part of the model.
\<close>

definition startup :: "src \<Rightarrow> ustring list \<Rightarrow> config \<times> ustring list" where
  "startup s argv =
     (let apiKey = arg_value (ascii ''--apiKey='') argv;
          apiUrl = arg_value (ascii ''--apiUrl='') argv;
          cfg = \<lparr> HEFENG_WEATHER_API_URL = (case apiUrl of None \<Rightarrow> [] | Some u \<Rightarrow> u),
                  HEFENG_GEO_API_URL = (case apiUrl of None \<Rightarrow> [] | Some u \<Rightarrow> u),
                  HEFENG_API_KEY = (case apiKey of None \<Rightarrow> [] | Some k \<Rightarrow> k) \<rparr>
      in (cfg,
          (case apiKey of None \<Rightarrow> [] | Some k \<Rightarrow> [key_log_line s k]) @
          (case apiUrl of None \<Rightarrow> [] | Some u \<Rightarrow> [log_api_url @ u]) @
          (if HEFENG_API_KEY cfg = [] then [warn_no_key] else []) @
          (if HEFENG_WEATHER_API_URL cfg = [] then [warn_no_weather_url] else []) @
          (if HEFENG_GEO_API_URL cfg = [] then [warn_no_geo_url] else [])))"

section \<open>Provider data\<close>

text \<open>
  The interfaces of the source, with the fields the program reads. Fields of the same name
  in different interfaces carry a prefix.
\<close>

record HeFengLocation =
  loc_name :: ustring
  loc_id :: ustring
  loc_lat :: ustring
  loc_lon :: ustring
  loc_adm2 :: ustring
  loc_adm1 :: ustring
  loc_country :: ustring

record HeFengNowObject =
  obsTime :: ustring
  now_temp :: ustring
  feelsLike :: ustring
  now_text :: ustring
  now_windDir :: ustring
  now_windScale :: ustring
  now_humidity :: ustring
  now_precip :: ustring
  now_pressure :: ustring
  now_vis :: ustring

record HeFengHourlyObject =
  fxTime :: ustring
  h_temp :: ustring
  h_text :: ustring
  h_windDir :: ustring
  h_windScale :: ustring
  h_humidity :: ustring
  pop :: "ustring option"

record HeFengDailyObject =
  fxDate :: ustring
  tempMax :: ustring
  tempMin :: ustring
  textDay :: ustring
  textNight :: ustring
  windDirDay :: ustring
  windScaleDay :: ustring
  windDirNight :: ustring
  windScaleNight :: ustring
  d_humidity :: ustring
  d_precip :: ustring
  uvIndex :: ustring
  sunrise :: "ustring option"
  sunset :: "ustring option"

text \<open>
  The \<^verbatim>\<open>error\<close> member of a body: a string, as \<^verbatim>\<open>makeHeFengRequest\<close> builds it, or the
  provider's object \<^verbatim>\<open>{status, title, detail}\<close>.
\<close>

datatype err_field =
  ErrStr ustring
| ErrObj (err_status: "nat option") (err_title: "ustring option") (err_detail: "ustring option")

text \<open>
  A JSON object as the program looks at it: every member it reads, each possibly absent.
  It is the type of a parsed response body and of what \<^verbatim>\<open>makeHeFengRequest\<close> returns.
\<close>

record reply =
  code :: "ustring option"
  error :: "err_field option"
  message :: "ustring option"
  now :: "HeFengNowObject option"
  hourly :: "HeFengHourlyObject list option"
  daily :: "HeFengDailyObject list option"
  location :: "HeFengLocation list option"

definition empty_reply :: reply where
  "empty_reply = \<lparr> code = None, error = None, message = None, now = None,
                    hourly = None, daily = None, location = None \<rparr>"

text \<open>\<^verbatim>\<open>{ code: c, error: e }\<close> and \<^verbatim>\<open>{ code: c, message: m }\<close>.\<close>

definition code_error :: "ustring \<Rightarrow> ustring \<Rightarrow> reply" where
  "code_error c e = empty_reply \<lparr> code := Some c, error := Some (ErrStr e) \<rparr>"

definition code_message :: "ustring \<Rightarrow> ustring \<Rightarrow> reply" where
  "code_message c m = empty_reply \<lparr> code := Some c, message := Some m \<rparr>"

section \<open>The collaborators\<close>

text \<open>
  What \<^verbatim>\<open>fetch\<close> is called with. The URL is \<^verbatim>\<open>baseUrl + path + "?" + query\<close>; the
  percent-encoding done by \<^verbatim>\<open>URLSearchParams\<close> belongs to the runtime, so the query is
  kept as its list of pairs.
\<close>

record request =
  url_base :: ustring
  url_path :: ustring
  query :: "(ustring \<times> ustring) list"
  headers :: "(ustring \<times> ustring) list"

text \<open>
  A response: \<^verbatim>\<open>ok\<close>, \<^verbatim>\<open>status\<close>, the body as text, and the body parsed as JSON: the
  object, or the message of the error that parsing it throws. A body that is JSON but not
  an object (a number, a string, an array) is outside the model.
\<close>

record http_response =
  ok :: bool
  status :: nat
  body_text :: ustring
  body_json :: "ustring + reply"

text \<open>An \<^verbatim>\<open>Error\<close> object: its message, and the members \<^verbatim>\<open>code\<close> and \<^verbatim>\<open>status\<close> it may carry.\<close>

record js_error =
  err_code :: "ustring option"
  err_status_of :: "nat option"
  err_message :: ustring

datatype http_outcome = Rejected js_error | Resolved http_response

datatype jsarg = AString ustring | ANumber | ABoolean | ANull | AObject | AArray

text \<open>An issue of a zod parse: the path of the member and what was received there.\<close>

record zod_issue =
  path :: "ustring list"
  received :: "jsarg option"

text \<open>
  The outside of the program: the HTTP client, the \<^verbatim>\<open>pinyin\<close> package, the runtime's
  \<^verbatim>\<open>String.prototype.toLowerCase\<close> (the Unicode case mapping, which can change the length of
  a string) and the message texts of the zod package.
\<close>

record world =
  fetch :: "request \<Rightarrow> http_outcome"
  pinyin :: "ustring \<Rightarrow> ustring list list"
  toLowerCase :: "ustring \<Rightarrow> ustring"
  zod_message :: "zod_issue \<Rightarrow> ustring"

section \<open>The upstream request\<close>

text \<open>
  The request that \<^verbatim>\<open>fetch\<close> receives. \<^verbatim>\<open>index.ts\<close> and \<^verbatim>\<open>part_001\<close> add the key to the
  query; \<^verbatim>\<open>part_000\<close> sends it in the header \<^verbatim>\<open>X-QW-Api-Key\<close>.
\<close>

definition mk_request ::
  "src \<Rightarrow> config \<Rightarrow> ustring \<Rightarrow> ustring \<Rightarrow> (ustring \<times> ustring) list \<Rightarrow> request" where
  "mk_request s cfg baseUrl pth params =
     (case s of
        Part_000 \<Rightarrow>
          \<lparr> url_base = baseUrl, url_path = pth, query = params,
            headers = [(ascii ''X-QW-Api-Key'', HEFENG_API_KEY cfg),
                       (ascii ''Accept-Encoding'', ascii ''gzip, deflate, br''),
                       (ascii ''Accept'', ascii ''application/json'')] \<rparr>
      | _ \<Rightarrow>
          \<lparr> url_base = baseUrl, url_path = pth,
            query = params @ [(ascii ''key'', HEFENG_API_KEY cfg)], headers = [] \<rparr>)"

text \<open>The \<^verbatim>\<open>Error\<close> thrown for a response that is not ok and carries no provider error.\<close>

definition http_error :: "http_response \<Rightarrow> js_error" where
  "http_error r =
     \<lparr> err_code = None, err_status_of = None,
       err_message = ascii ''HTTP error! status: '' @ decimal (status r) @
                     ascii '', body: '' @ body_text r \<rparr>"

text \<open>The \<^verbatim>\<open>SyntaxError\<close> of \<^verbatim>\<open>response.json()\<close>.\<close>

definition syntax_error :: "ustring \<Rightarrow> js_error" where
  "syntax_error m = \<lparr> err_code = None, err_status_of = None, err_message = m \<rparr>"

text \<open>The outer \<^verbatim>\<open>catch\<close> of \<^verbatim>\<open>makeHeFengRequest\<close>.\<close>

definition request_catch :: "src \<Rightarrow> js_error \<Rightarrow> reply" where
  "request_catch s e =
     (case s of
        Index_ts \<Rightarrow>
          (if truthy (err_code e) then code_message (show_opt (err_code e)) (err_message e)
           else code_message (ascii ''FETCH_ERROR'') (err_message e))
      | _ \<Rightarrow>
          (if includes_str (err_message e) (ascii ''HeFeng API Error'')
           then code_error
                  (or_str (or_opt (err_code e)
                             (case err_status_of e of
                                None \<Rightarrow> ascii ''undefined''
                              | Some n \<Rightarrow> decimal n))
                          (ascii ''UNKNOWN_HFE_ERROR''))
                  (err_message e)
           else code_error (ascii ''FETCH_ERROR'') (err_message e)))"

text \<open>
  The branch \<^verbatim>\<open>if (!response.ok)\<close>: a recognised provider error is returned (\<open>Inr\<close>),
  anything else is thrown (\<open>Inl\<close>).
\<close>

definition common_error :: "src \<Rightarrow> http_response \<Rightarrow> reply \<Rightarrow> js_error + reply" where
  "common_error s r b =
     (if truthy (code b)
      then Inr (code_error (show_opt (code b))
                  ((case s of
                      Index_ts \<Rightarrow> ascii ''HeFeng API Error: ''
                    | _ \<Rightarrow> ascii ''HeFeng API Error (Code: '' @ show_opt (code b) @ ascii ''): '') @
                   or_opt (message b) (body_text r)))
      else Inl (http_error r))"

definition not_ok :: "src \<Rightarrow> http_response \<Rightarrow> js_error + reply" where
  "not_ok s r =
     (case body_json r of
        Inl _ \<Rightarrow> Inl (http_error r)
      | Inr b \<Rightarrow>
          (case s of
             Index_ts \<Rightarrow> common_error s r b
           | _ \<Rightarrow>
               (case error b of
                  Some (ErrObj st ti de) \<Rightarrow>
                    (if truthy de \<or> truthy ti
                     then Inr (code_error
                            (decimal (case st of
                                        None \<Rightarrow> status r
                                      | Some n \<Rightarrow> if n = 0 then status r else n))
                            (ascii ''HeFeng API Error: '' @ or_opt ti (ascii ''Unknown Error'') @
                             ascii ''. Detail: '' @ or_opt de (ascii ''No detail provided.'')))
                     else common_error s r b)
                | _ \<Rightarrow> common_error s r b)))"

text \<open>The branch of an ok response, after \<^verbatim>\<open>response.json()\<close>.\<close>

definition is_ok :: "src \<Rightarrow> http_response \<Rightarrow> js_error + reply" where
  "is_ok s r =
     (case body_json r of
        Inl m \<Rightarrow> Inl (syntax_error m)
      | Inr b \<Rightarrow>
          (case s of
             Index_ts \<Rightarrow> Inr b
           | _ \<Rightarrow>
               (if truthy (code b) \<and> code b \<noteq> Some (ascii ''200'')
                then Inr (code_error (show_opt (code b))
                            (ascii ''HeFeng API business error. Code: '' @ show_opt (code b)))
                else Inr b)))"

text \<open>
  \<^verbatim>\<open>makeHeFengRequest(baseUrl, path, params)\<close>: what it returns, and the requests it has
  passed to \<^verbatim>\<open>fetch\<close> (none or one).
\<close>

definition makeHeFengRequest ::
  "src \<Rightarrow> config \<Rightarrow> world \<Rightarrow> ustring \<Rightarrow> ustring \<Rightarrow> (ustring \<times> ustring) list
     \<Rightarrow> reply \<times> request list" where
  "makeHeFengRequest s cfg w baseUrl pth params =
     (if HEFENG_API_KEY cfg = [] then
        (code_error (ascii ''500'') (ascii ''API Key not configured''), [])
      else if baseUrl = [] then
        (code_error (ascii ''500'') (ascii ''API Base URL not configured''), [])
      else
        (let req = mk_request s cfg baseUrl pth params
         in ((case fetch w req of
                Rejected e \<Rightarrow> request_catch s e
              | Resolved r \<Rightarrow>
                  (case (if ok r then is_ok s r else not_ok s r) of
                     Inl e \<Rightarrow> request_catch s e
                   | Inr d \<Rightarrow> d)),
             [req])))"

section \<open>Location lookup\<close>

definition geo_path :: "src \<Rightarrow> ustring" where
  "geo_path s = (case s of Part_000 \<Rightarrow> ascii ''/geo/v2/city/lookup'' | _ \<Rightarrow> ascii ''/v2/city/lookup'')"

text \<open>\<^verbatim>\<open>response.location && response.location.length > 0\<close>, then \<^verbatim>\<open>response.location[0]\<close>.\<close>

definition first_location :: "reply \<Rightarrow> HeFengLocation option" where
  "first_location d =
     (case location d of None \<Rightarrow> None | Some [] \<Rightarrow> None | Some (l # _) \<Rightarrow> Some l)"

text \<open>
  \<^verbatim>\<open>fetchLocationDetailsByName\<close> (\<^verbatim>\<open>fetchLocationDetails\<close> in \<^verbatim>\<open>part_000\<close>); \<open>None\<close> is
  \<^verbatim>\<open>null\<close>.
\<close>

definition fetchLocationDetails ::
  "src \<Rightarrow> config \<Rightarrow> world \<Rightarrow> ustring \<Rightarrow> HeFengLocation option \<times> request list" where
  "fetchLocationDetails s cfg w cityName =
     (if HEFENG_GEO_API_URL cfg = [] then (None, [])
      else
        (let (response, calls) =
               makeHeFengRequest s cfg w (HEFENG_GEO_API_URL cfg) (geo_path s)
                 [(ascii ''location'', cityName)]
         in ((case s of
                Index_ts \<Rightarrow>
                  (if code response = Some (ascii ''200'') then first_location response
                   else None)
              | _ \<Rightarrow>
                  (if error response \<noteq> None then None
                   else if code response = Some (ascii ''200'') then first_location response
                   else None)),
             calls)))"

section \<open>Transliteration\<close>

text \<open>\<^verbatim>\<open>containsChinese\<close>: some code unit lies between U+4E00 and U+9FA5.\<close>

definition containsChinese :: "ustring \<Rightarrow> bool" where
  "containsChinese text = list_ex (\<lambda>c. 0x4E00 \<le> c \<and> c \<le> 0x9FA5) text"

text \<open>\<^verbatim>\<open>arr[0]\<close> inside \<^verbatim>\<open>join\<close>: an empty array gives \<^verbatim>\<open>undefined\<close>, joined as nothing.\<close>

definition first_reading :: "ustring list \<Rightarrow> ustring" where
  "first_reading arr = (case arr of [] \<Rightarrow> [] | r # _ \<Rightarrow> r)"

text \<open>\<^verbatim>\<open>convertToPinyin\<close>: \<^verbatim>\<open>pinyin(text, ...).map(arr => arr[0]).join('').toLowerCase()\<close>.\<close>

definition convertToPinyin :: "world \<Rightarrow> ustring \<Rightarrow> ustring" where
  "convertToPinyin w chineseText =
     toLowerCase w (join [] (map first_reading (pinyin w chineseText)))"

section \<open>Argument validation\<close>

text \<open>The enumeration of \<^verbatim>\<open>days\<close> and its strings.\<close>

datatype days = Now | H24 | H72 | H168 | D3 | D7 | D10 | D15 | D30

definition days_str :: "days \<Rightarrow> ustring" where
  "days_str d =
     (case d of
        Now \<Rightarrow> ascii ''now'' | H24 \<Rightarrow> ascii ''24h'' | H72 \<Rightarrow> ascii ''72h''
      | H168 \<Rightarrow> ascii ''168h'' | D3 \<Rightarrow> ascii ''3d'' | D7 \<Rightarrow> ascii ''7d''
      | D10 \<Rightarrow> ascii ''10d'' | D15 \<Rightarrow> ascii ''15d'' | D30 \<Rightarrow> ascii ''30d'')"

definition days_of :: "ustring \<Rightarrow> days option" where
  "days_of v = find (\<lambda>d. days_str d = v) [Now, H24, H72, H168, D3, D7, D10, D15, D30]"

text \<open>
  The arguments of a call: \<open>None\<close> when the request carries none, else the members of the
  object. \<^verbatim>\<open>z.string()\<close> accepts a string member; \<^verbatim>\<open>z.enum([...]).default('now')\<close> accepts
  an absent member or a string of the enumeration. A parse reports the issues of all
  members.
\<close>

type_synonym tool_args = "(ustring \<times> jsarg) list option"

definition z_string :: "ustring \<Rightarrow> (ustring \<times> jsarg) list \<Rightarrow> zod_issue list + ustring" where
  "z_string key obj =
     (case map_of obj key of
        Some (AString v) \<Rightarrow> Inr v
      | r \<Rightarrow> Inl [\<lparr> path = [key], received = r \<rparr>])"

definition z_days :: "(ustring \<times> jsarg) list \<Rightarrow> zod_issue list + days" where
  "z_days obj =
     (case map_of obj (ascii ''days'') of
        None \<Rightarrow> Inr Now
      | Some (AString v) \<Rightarrow>
          (case days_of v of
             Some d \<Rightarrow> Inr d
           | None \<Rightarrow> Inl [\<lparr> path = [ascii ''days''], received = Some (AString v) \<rparr>])
      | Some a \<Rightarrow> Inl [\<lparr> path = [ascii ''days''], received = Some a \<rparr>])"

text \<open>\<^verbatim>\<open>LocationIdArgumentsSchema.parse(args)\<close>.\<close>

definition parse_location_args :: "tool_args \<Rightarrow> zod_issue list + ustring" where
  "parse_location_args args =
     (case args of
        None \<Rightarrow> Inl [\<lparr> path = [], received = None \<rparr>]
      | Some obj \<Rightarrow> z_string (ascii ''city_name'') obj)"

text \<open>\<^verbatim>\<open>WeatherArgumentsSchema.parse(args)\<close>.\<close>

definition parse_weather_args :: "tool_args \<Rightarrow> zod_issue list + ustring \<times> days" where
  "parse_weather_args args =
     (case args of
        None \<Rightarrow> Inl [\<lparr> path = [], received = None \<rparr>]
      | Some obj \<Rightarrow>
          (case (z_string (ascii ''location'') obj, z_days obj) of
             (Inr l, Inr d) \<Rightarrow> Inr (l, d)
           | (Inl i, Inr _) \<Rightarrow> Inl i
           | (Inr _, Inl j) \<Rightarrow> Inl j
           | (Inl i, Inl j) \<Rightarrow> Inl (i @ j)))"

section \<open>Formatting\<close>

definition divider :: ustring where
  "divider = ascii ''------------------------''"

text \<open>The five lines of \<^verbatim>\<open>get_location_id\<close>.\<close>

definition format_location :: "HeFengLocation \<Rightarrow> ustring" where
  "format_location l =
     lbl_city @ loc_name l @ nl @
     lbl_region @ or_str (loc_adm2 l) NA @ ascii '', '' @ or_str (loc_adm1 l) NA @
       ascii '', '' @ or_str (loc_country l) NA @ nl @
     ascii ''Location ID: '' @ loc_id l @ nl @
     lbl_lat @ loc_lat l @ nl @
     lbl_lon @ loc_lon l"

definition not_found_text :: "src \<Rightarrow> ustring \<Rightarrow> ustring" where
  "not_found_text s city_name =
     (case s of
        Index_ts \<Rightarrow> txt_not_found_city @ city_name @ txt_not_found_tail_index
      | Part_000 \<Rightarrow> txt_not_found @ city_name @ txt_not_found_tail_000
      | Part_001 \<Rightarrow> txt_not_found_city @ city_name @ txt_not_found_tail_001)"

text \<open>The text for \<^verbatim>\<open>days === 'now'\<close> with the record \<^verbatim>\<open>now\<close>.\<close>

definition format_now :: "ustring \<Rightarrow> HeFengNowObject \<Rightarrow> ustring" where
  "format_now displayLocation n =
     lbl_place @ displayLocation @ nl @
     lbl_obsTime @ obsTime n @ nl @
     lbl_weather @ now_text n @ nl @
     lbl_temp @ now_temp n @ unit_celsius @ nl @
     lbl_feelsLike @ feelsLike n @ unit_celsius @ nl @
     lbl_windDir @ now_windDir n @ nl @
     lbl_windScale @ now_windScale n @ unit_scale @ nl @
     lbl_humidity @ now_humidity n @ ascii ''%'' @ nl @
     lbl_precip_hour @ now_precip n @ ascii ''mm'' @ nl @
     lbl_pressure @ now_pressure n @ ascii ''hPa'' @ nl @
     lbl_vis @ now_vis n @ unit_km"

text \<open>The block of one hourly record; \<^verbatim>\<open>hour.pop || 'N/A'\<close>.\<close>

definition format_hour :: "HeFengHourlyObject \<Rightarrow> ustring" where
  "format_hour hour =
     lbl_time @ fxTime hour @ nl @
     lbl_h_weather @ h_text hour @ lbl_h_temp @ h_temp hour @ unit_celsius @ nl @
     lbl_h_humidity @ h_humidity hour @ lbl_h_pop @ or_opt (pop hour) NA @ ascii ''%'' @ nl @
     lbl_h_wind @ h_windDir hour @ ascii '' '' @ h_windScale hour @ unit_scale @ nl @
     divider"

definition format_hourly :: "ustring \<Rightarrow> days \<Rightarrow> HeFengHourlyObject list \<Rightarrow> ustring" where
  "format_hourly displayLocation d hs =
     lbl_place @ displayLocation @ nl @ days_str d @ txt_hourly_header @ nl @
     join nl (map format_hour hs)"

text \<open>The block of one daily record; \<^verbatim>\<open>day.sunrise || 'N/A'\<close>, \<^verbatim>\<open>day.sunset || 'N/A'\<close>.\<close>

definition format_day :: "HeFengDailyObject \<Rightarrow> ustring" where
  "format_day day =
     lbl_date @ fxDate day @ lbl_sunrise @ or_opt (sunrise day) NA @
       lbl_sunset @ or_opt (sunset day) NA @ ascii '')'' @ nl @
     lbl_textDay @ textDay day @ lbl_textNight @ textNight day @ nl @
     lbl_tempMax @ tempMax day @ lbl_tempMin @ tempMin day @ unit_celsius @ nl @
     lbl_d_humidity @ d_humidity day @ lbl_d_precip @ d_precip day @ ascii ''mm'' @ nl @
     lbl_windDay @ windDirDay day @ ascii '' '' @ windScaleDay day @ unit_scale @ nl @
     lbl_windNight @ windDirNight day @ ascii '' '' @ windScaleNight day @ unit_scale @ nl @
     lbl_uv @ uvIndex day @ nl @
     divider"

definition format_daily :: "ustring \<Rightarrow> days \<Rightarrow> HeFengDailyObject list \<Rightarrow> ustring" where
  "format_daily displayLocation d ds =
     lbl_place @ displayLocation @ nl @ days_str d @ txt_daily_header @ nl @
     join nl (map format_day ds)"

text \<open>\<^verbatim>\<open>['24h', '72h', '168h'].includes(days)\<close>.\<close>

definition is_hourly :: "days \<Rightarrow> bool" where
  "is_hourly d = (d \<in> set [H24, H72, H168])"

text \<open>
  The shape branching of \<^verbatim>\<open>index.ts\<close>, reached with \<^verbatim>\<open>code === "200"\<close>. An empty array is
  truthy, so it enters its branch and gives the text of unavailable data there. The
  branch of \<^verbatim>\<open>daily\<close> does not look at \<^verbatim>\<open>days\<close>.
\<close>

definition shape_index :: "ustring \<Rightarrow> days \<Rightarrow> reply \<Rightarrow> ustring" where
  "shape_index displayLocation d weatherData =
     (case (if d = Now then now weatherData else None) of
        Some n \<Rightarrow> format_now displayLocation n
      | None \<Rightarrow>
          (case (if is_hourly d then hourly weatherData else None) of
             Some hs \<Rightarrow>
               (if hs = [] then txt_cannot_get @ displayLocation @ txt_hourly_unavailable_index
                else format_hourly displayLocation d hs)
           | None \<Rightarrow>
               (case daily weatherData of
                  Some ds \<Rightarrow>
                    (if ds = []
                     then txt_cannot_get @ displayLocation @ txt_of @ days_str d @
                          txt_daily_unavailable_index
                     else format_daily displayLocation d ds)
                | None \<Rightarrow>
                    txt_get @ displayLocation @ txt_malformed_index @
                    show_opt (code weatherData) @ ascii '')'')))"

text \<open>The shape branching of \<^verbatim>\<open>part_000\<close> and \<^verbatim>\<open>part_001\<close>: first by \<^verbatim>\<open>days\<close>.\<close>

definition shape_parts :: "ustring \<Rightarrow> days \<Rightarrow> reply \<Rightarrow> ustring" where
  "shape_parts displayLocation d weatherData =
     (if d = Now then
        (case now weatherData of
           Some n \<Rightarrow> format_now displayLocation n
         | None \<Rightarrow>
             txt_get @ displayLocation @ txt_now_incomplete @
             show_opt (code weatherData) @ ascii '')'')
      else if is_hourly d then
        (case hourly weatherData of
           Some (h # hs) \<Rightarrow> format_hourly displayLocation d (h # hs)
         | _ \<Rightarrow>
             txt_cannot_get @ displayLocation @ txt_hourly_unavailable @
             show_opt (code weatherData) @ ascii '')'')
      else
        (case daily weatherData of
           Some (x # xs) \<Rightarrow> format_daily displayLocation d (x # xs)
         | _ \<Rightarrow>
             txt_cannot_get @ displayLocation @ txt_of @ days_str d @ txt_daily_unavailable @
             show_opt (code weatherData) @ ascii '')''))"

text \<open>\<^verbatim>\<open>x.error || d\<close>: an object is truthy and prints as \<^verbatim>\<open>[object Object]\<close>.\<close>

definition or_err :: "err_field option \<Rightarrow> ustring \<Rightarrow> ustring" where
  "or_err e d =
     (case e of
        None \<Rightarrow> d
      | Some (ErrStr m) \<Rightarrow> or_str m d
      | Some (ErrObj _ _ _) \<Rightarrow> ascii ''[object Object]'')"

text \<open>The test that sends a reply to the failure text.\<close>

definition is_failure :: "src \<Rightarrow> reply \<Rightarrow> bool" where
  "is_failure s weatherData =
     (case s of
        Index_ts \<Rightarrow> code weatherData \<noteq> Some (ascii ''200'')
      | _ \<Rightarrow> error weatherData \<noteq> None \<or>
             (truthy (code weatherData) \<and> code weatherData \<noteq> Some (ascii ''200'')))"

text \<open>
  The failure text. \<open>pinyinName\<close> is \<^verbatim>\<open>convertToPinyin(rawLocationInput)\<close>, which the note
  of \<^verbatim>\<open>part_001\<close> prints.
\<close>

definition failure_text ::
  "src \<Rightarrow> ustring \<Rightarrow> ustring \<Rightarrow> ustring \<Rightarrow> bool \<Rightarrow> reply \<Rightarrow> ustring" where
  "failure_text s rawLocationInput pinyinName displayLocation attemptPinyin weatherData =
     (let apiErrorCode = or_opt (code weatherData) NA
      in (case s of
            Index_ts \<Rightarrow>
              txt_cannot_get @ displayLocation @ txt_weather_data_code @ apiErrorCode @
              ascii ''). '' @
              or_opt (message weatherData) (or_err (error weatherData) txt_default_error)
          | Part_000 \<Rightarrow>
              txt_cannot_get @ displayLocation @ txt_weather_data_status @ apiErrorCode @
              ascii ''). '' @
              or_err (error weatherData) (or_opt (message weatherData) txt_default_error) @
              txt_note_direct_a @ rawLocationInput @ txt_note_direct_b
          | Part_001 \<Rightarrow>
              txt_cannot_get @ displayLocation @ txt_weather_data_status @ apiErrorCode @
              ascii ''). '' @
              or_err (error weatherData) (or_opt (message weatherData) txt_default_error) @
              (if attemptPinyin \<and> apiErrorCode \<noteq> ascii ''200''
               then txt_note_pinyin_a @ rawLocationInput @ txt_note_pinyin_b @ pinyinName @
                    txt_note_pinyin_c
               else [])))"

text \<open>Everything the weather tool does with the reply of the forecast request.\<close>

definition weather_text ::
  "src \<Rightarrow> ustring \<Rightarrow> ustring \<Rightarrow> ustring \<Rightarrow> bool \<Rightarrow> days \<Rightarrow> reply \<Rightarrow> ustring" where
  "weather_text s rawLocationInput pinyinName displayLocation attemptPinyin d weatherData =
     (if is_failure s weatherData
      then failure_text s rawLocationInput pinyinName displayLocation attemptPinyin weatherData
      else (case s of
              Index_ts \<Rightarrow> shape_index displayLocation d weatherData
            | _ \<Rightarrow> shape_parts displayLocation d weatherData))"

section \<open>The call-tool handler\<close>

text \<open>
  What a call gives back: the envelope \<^verbatim>\<open>{content: [{type: "text", text}]}\<close>, or an
  \<^verbatim>\<open>Error\<close> thrown out of the handler.
\<close>

datatype tool_result = Content ustring | Thrown ustring

text \<open>What the body of \<^verbatim>\<open>try\<close> can throw.\<close>

datatype exn = ZodError "zod_issue list" | Error ustring

definition weather_tool :: "src \<Rightarrow> ustring" where
  "weather_tool s = (case s of Part_000 \<Rightarrow> ascii ''get_weather'' | _ \<Rightarrow> ascii ''get-weather'')"

text \<open>The branch \<^verbatim>\<open>name === "get_location_id"\<close>.\<close>

definition tool_location ::
  "src \<Rightarrow> config \<Rightarrow> world \<Rightarrow> tool_args \<Rightarrow> (exn + ustring) \<times> request list" where
  "tool_location s cfg w args =
     (case parse_location_args args of
        Inl issues \<Rightarrow> (Inl (ZodError issues), [])
      | Inr city_name \<Rightarrow>
          (if HEFENG_GEO_API_URL cfg = [] then (Inr txt_geo_unconfigured, [])
           else
             (let (locationDetails, calls) = fetchLocationDetails s cfg w city_name
              in ((case locationDetails of
                     None \<Rightarrow> Inr (not_found_text s city_name)
                   | Some l \<Rightarrow> Inr (format_location l)),
                  calls))))"

text \<open>
  The location the forecast is asked for, the location shown, and whether transliteration
  was tried. Only \<^verbatim>\<open>part_001\<close> transliterates and looks the location up; the other two
  use the input as it is.
\<close>

record resolved =
  effectiveLocation :: ustring
  displayLocation :: ustring
  attemptPinyin :: bool

definition resolve_location ::
  "src \<Rightarrow> config \<Rightarrow> world \<Rightarrow> ustring \<Rightarrow> resolved \<times> request list" where
  "resolve_location s cfg w rawLocationInput =
     (if s = Part_001 \<and> containsChinese rawLocationInput then
        (let pinyinName = convertToPinyin w rawLocationInput;
             (locationDetailsFromPinyin, calls) = fetchLocationDetails s cfg w pinyinName
         in (\<lparr> effectiveLocation =
                 (case locationDetailsFromPinyin of
                    None \<Rightarrow> pinyinName
                  | Some l \<Rightarrow> if loc_id l \<noteq> [] then loc_id l else pinyinName),
               displayLocation = rawLocationInput @ ascii '' ('' @ pinyinName @ ascii '')'',
               attemptPinyin = True \<rparr>,
             calls))
      else
        (\<lparr> effectiveLocation = rawLocationInput, displayLocation = rawLocationInput,
            attemptPinyin = False \<rparr>, []))"

text \<open>The path of the forecast request.\<close>

definition weatherPath :: "days \<Rightarrow> ustring" where
  "weatherPath d =
     (if d = Now then ascii ''/v7/weather/now''
      else if is_hourly d then ascii ''/v7/weather/'' @ days_str d
      else ascii ''/v7/weather/'' @ days_str d)"

text \<open>The branch of the weather tool.\<close>

definition tool_weather ::
  "src \<Rightarrow> config \<Rightarrow> world \<Rightarrow> tool_args \<Rightarrow> (exn + ustring) \<times> request list" where
  "tool_weather s cfg w args =
     (if HEFENG_WEATHER_API_URL cfg = [] then (Inr txt_weather_unconfigured, [])
      else
        (case parse_weather_args args of
           Inl issues \<Rightarrow> (Inl (ZodError issues), [])
         | Inr (rawLocationInput, d) \<Rightarrow>
             (let (r, calls1) = resolve_location s cfg w rawLocationInput;
                  (weatherData, calls2) =
                    makeHeFengRequest s cfg w (HEFENG_WEATHER_API_URL cfg) (weatherPath d)
                      [(ascii ''location'', effectiveLocation r)]
              in (Inr (weather_text s rawLocationInput (convertToPinyin w rawLocationInput)
                         (displayLocation r) (attemptPinyin r) d weatherData),
                  calls1 @ calls2))))"

text \<open>The body of \<^verbatim>\<open>try\<close>.\<close>

definition try_body ::
  "src \<Rightarrow> config \<Rightarrow> world \<Rightarrow> ustring \<Rightarrow> tool_args \<Rightarrow> (exn + ustring) \<times> request list" where
  "try_body s cfg w name args =
     (if name = ascii ''get_location_id'' then tool_location s cfg w args
      else if name = weather_tool s then tool_weather s cfg w args
      else (Inl (Error (ascii ''Unknown tool: '' @ name)), []))"

text \<open>\<^verbatim>\<open>`${e.path.join(".")}: ${e.message}`\<close>.\<close>

definition issue_text :: "world \<Rightarrow> zod_issue \<Rightarrow> ustring" where
  "issue_text w e = join (ascii ''.'') (path e) @ ascii '': '' @ zod_message w e"

text \<open>
  The \<^verbatim>\<open>catch\<close> of the handler. \<^verbatim>\<open>index.ts\<close> and \<^verbatim>\<open>part_001\<close> throw a new \<^verbatim>\<open>Error\<close> for a
  \<^verbatim>\<open>ZodError\<close>; \<^verbatim>\<open>part_000\<close> returns it as text. Every other error is returned as text.
\<close>

definition catch_block :: "src \<Rightarrow> world \<Rightarrow> ustring \<Rightarrow> exn \<Rightarrow> tool_result" where
  "catch_block s w name e =
     (case e of
        ZodError issues \<Rightarrow>
          (case s of
             Part_000 \<Rightarrow>
               Content (txt_invalid_args @ join (ascii ''; '') (map (issue_text w) issues))
           | _ \<Rightarrow>
               Thrown (txt_invalid_args @ join (ascii '', '') (map (issue_text w) issues)))
      | Error m \<Rightarrow> Content (txt_tool_a @ name @ txt_tool_b @ m))"

text \<open>The handler of \<^verbatim>\<open>CallToolRequestSchema\<close>: its result and the requests it made.\<close>

definition handler ::
  "src \<Rightarrow> config \<Rightarrow> world \<Rightarrow> ustring \<Rightarrow> tool_args \<Rightarrow> tool_result \<times> request list" where
  "handler s cfg w name args =
     (let (r, calls) = try_body s cfg w name args
      in ((case r of Inl e \<Rightarrow> catch_block s w name e | Inr t \<Rightarrow> Content t), calls))"

section \<open>Sample data\<close>

text \<open>A configuration as \<^verbatim>\<open>--apiKey=k3y --apiUrl=https://api.example\<close> leaves it.\<close>

definition demo_cfg :: config where
  "demo_cfg = \<lparr> HEFENG_WEATHER_API_URL = ascii ''https://api.example'',
                 HEFENG_GEO_API_URL = ascii ''https://api.example'',
                 HEFENG_API_KEY = ascii ''k3y'' \<rparr>"

text \<open>The same without a key.\<close>

definition nokey_cfg :: config where
  "nokey_cfg = \<lparr> HEFENG_WEATHER_API_URL = ascii ''https://api.example'',
                  HEFENG_GEO_API_URL = ascii ''https://api.example'',
                  HEFENG_API_KEY = [] \<rparr>"

text \<open>
  A transliteration in the place of the \<^verbatim>\<open>pinyin\<close> package. It reads U+5317 as \<^verbatim>\<open>bei\<close>
  and U+4EAC as \<^verbatim>\<open>jing\<close>, gives the two readings \<^verbatim>\<open>xing\<close> and \<^verbatim>\<open>hang\<close> for U+884C, and
  hands every other code unit back unchanged, as the package does with text that is not
  Chinese.
\<close>

definition demo_pinyin :: "ustring \<Rightarrow> ustring list list" where
  "demo_pinyin text =
     map (\<lambda>c. if c = 0x5317 then [ascii ''bei'']
              else if c = 0x4EAC then [ascii ''jing'']
              else if c = 0x884C then [ascii ''xing'', ascii ''hang'']
              else [[c]])
       text"

text \<open>
  A lower-casing in the place of the runtime's: the letters A to Z move to a to z. On a
  string of ASCII code units this is what \<^verbatim>\<open>toLowerCase\<close> returns; the sample worlds apply
  it to such strings only.
\<close>

definition ascii_lower :: "ustring \<Rightarrow> ustring" where
  "ascii_lower s = map (\<lambda>c. if 0x41 \<le> c \<and> c \<le> 0x5A then c + 0x20 else c) s"

text \<open>A world whose HTTP client answers every request with the same outcome.\<close>

definition const_world :: "http_outcome \<Rightarrow> world" where
  "const_world out =
     \<lparr> fetch = (\<lambda>_. out), pinyin = demo_pinyin, toLowerCase = ascii_lower,
       zod_message = (\<lambda>_. ascii ''Required'') \<rparr>"

text \<open>
  A world whose HTTP client answers a forecast request (a path under \<^verbatim>\<open>/v7/weather/\<close>) with
  the second outcome and every other request with the first.
\<close>

definition path_world :: "http_outcome \<Rightarrow> http_outcome \<Rightarrow> world" where
  "path_world geo_out weather_out =
     \<lparr> fetch = (\<lambda>req. if startsWith (url_path req) (ascii ''/v7/weather/'')
                        then weather_out else geo_out),
       pinyin = demo_pinyin, toLowerCase = ascii_lower,
       zod_message = (\<lambda>_. ascii ''Required'') \<rparr>"

text \<open>An ok response with the given JSON object as body.\<close>

definition ok_json :: "reply \<Rightarrow> http_outcome" where
  "ok_json b = Resolved \<lparr> ok = True, status = 200, body_text = [], body_json = Inr b \<rparr>"

text \<open>A connection that fails.\<close>

definition refused :: http_outcome where
  "refused = Rejected \<lparr> err_code = None, err_status_of = None,
                         err_message = ascii ''fetch failed'' \<rparr>"

text \<open>The record \<^verbatim>\<open>now\<close> of the instant scenario.\<close>

definition demo_now :: HeFengNowObject where
  "demo_now = \<lparr> obsTime = ascii ''2024-01-01T08:00+08:00'', now_temp = ascii ''5'',
                 feelsLike = ascii ''2'', now_text = ascii ''Cloudy'', now_windDir = ascii ''N'',
                 now_windScale = ascii ''3'', now_humidity = ascii ''40'',
                 now_precip = ascii ''0.0'', now_pressure = ascii ''1020'',
                 now_vis = ascii ''10'' \<rparr>"

definition demo_hour :: HeFengHourlyObject where
  "demo_hour = \<lparr> fxTime = ascii ''2024-01-01T09:00+08:00'', h_temp = ascii ''6'',
                  h_text = ascii ''Sunny'', h_windDir = ascii ''NE'', h_windScale = ascii ''2'',
                  h_humidity = ascii ''35'', pop = None \<rparr>"

definition demo_day :: HeFengDailyObject where
  "demo_day = \<lparr> fxDate = ascii ''2024-01-02'', tempMax = ascii ''8'', tempMin = ascii ''-3'',
                 textDay = ascii ''Sunny'', textNight = ascii ''Clear'',
                 windDirDay = ascii ''N'', windScaleDay = ascii ''3'',
                 windDirNight = ascii ''NW'', windScaleNight = ascii ''2'',
                 d_humidity = ascii ''30'', d_precip = ascii ''0.0'', uvIndex = ascii ''2'',
                 sunrise = None, sunset = None \<rparr>"

text \<open>Bodies with \<^verbatim>\<open>code: "200"\<close> and one payload member.\<close>

definition now_body :: reply where
  "now_body = empty_reply \<lparr> code := Some (ascii ''200''), now := Some demo_now \<rparr>"

definition hourly_body :: reply where
  "hourly_body = empty_reply \<lparr> code := Some (ascii ''200''), hourly := Some [demo_hour] \<rparr>"

definition daily_body :: reply where
  "daily_body = empty_reply \<lparr> code := Some (ascii ''200''), daily := Some [demo_day] \<rparr>"

text \<open>The arguments \<^verbatim>\<open>{location: l}\<close> and \<^verbatim>\<open>{location: l, days: d}\<close>.\<close>

definition args_location :: "ustring \<Rightarrow> tool_args" where
  "args_location l = Some [(ascii ''location'', AString l)]"

definition args_location_days :: "ustring \<Rightarrow> ustring \<Rightarrow> tool_args" where
  "args_location_days l d = Some [(ascii ''location'', AString l), (ascii ''days'', AString d)]"

definition args_city :: "ustring \<Rightarrow> tool_args" where
  "args_city c = Some [(ascii ''city_name'', AString c)]"

text \<open>The number of lines of a text.\<close>

definition line_count :: "ustring \<Rightarrow> nat" where
  "line_count t = length (split 0x0A t)"

text \<open>The request the weather tool passes to \<^verbatim>\<open>fetch\<close> for the forecast.\<close>

definition forecast_request :: "src \<Rightarrow> config \<Rightarrow> world \<Rightarrow> ustring \<Rightarrow> days \<Rightarrow> request" where
  "forecast_request s cfg w rawLocationInput d =
     mk_request s cfg (HEFENG_WEATHER_API_URL cfg) (weatherPath d)
       [(ascii ''location'', effectiveLocation (fst (resolve_location s cfg w rawLocationInput)))]"

text \<open>Whether a call ended in a thrown \<^verbatim>\<open>Error\<close>.\<close>

definition is_thrown :: "tool_result \<Rightarrow> bool" where
  "is_thrown r = (case r of Thrown _ \<Rightarrow> True | Content _ \<Rightarrow> False)"

text \<open>The request \<^verbatim>\<open>fetchLocationDetailsByName\<close> passes to \<^verbatim>\<open>fetch\<close>.\<close>

definition geo_request :: "src \<Rightarrow> config \<Rightarrow> ustring \<Rightarrow> request" where
  "geo_request s cfg cityName =
     mk_request s cfg (HEFENG_GEO_API_URL cfg) (geo_path s) [(ascii ''location'', cityName)]"

text \<open>The city name U+5317 U+4EAC (Beijing) in Chinese script.\<close>

definition beijing_zh :: ustring where
  "beijing_zh = [0x5317, 0x4EAC]"

text \<open>Lookup bodies: no candidate, and a provider code that is not \<^verbatim>\<open>"200"\<close>.\<close>

definition no_candidates_body :: reply where
  "no_candidates_body = empty_reply \<lparr> code := Some (ascii ''200''), location := Some [] \<rparr>"

definition code_404_body :: reply where
  "code_404_body = empty_reply \<lparr> code := Some (ascii ''404'') \<rparr>"

text \<open>Forecast bodies with a \<^verbatim>\<open>now\<close> record and the code \<^verbatim>\<open>""\<close> or \<^verbatim>\<open>"400"\<close>.\<close>

definition empty_code_body :: reply where
  "empty_code_body = empty_reply \<lparr> code := Some [], now := Some demo_now \<rparr>"

definition code_400_body :: reply where
  "code_400_body = empty_reply \<lparr> code := Some (ascii ''400''), now := Some demo_now \<rparr>"

text \<open>U+5317, a space, U+4EAC: a location with Chinese script and a space.\<close>

definition bei_jing_zh :: ustring where
  "bei_jing_zh = [0x5317, 0x20, 0x4EAC]"

text \<open>A command line with a key and a URL.\<close>

definition demo_argv :: "ustring list" where
  "demo_argv = [ascii ''node'', ascii ''index.js'', ascii ''--apiKey=k3y'',
                ascii ''--apiUrl=https://api.example'']"

section \<open>Properties\<close>

subsection \<open>The handler, step by step\<close>

lemma weather_tool_not_location: "weather_tool s \<noteq> ascii ''get_location_id''"
  by (cases s) (simp_all add: weather_tool_def)

lemma makeHeFengRequest_configured:
  assumes "HEFENG_API_KEY cfg \<noteq> []" "baseUrl \<noteq> []"
  shows "makeHeFengRequest s cfg w baseUrl pth params =
           ((case fetch w (mk_request s cfg baseUrl pth params) of
               Rejected e \<Rightarrow> request_catch s e
             | Resolved r \<Rightarrow>
                 (case (if ok r then is_ok s r else not_ok s r) of
                    Inl e \<Rightarrow> request_catch s e
                  | Inr d \<Rightarrow> d)),
            [mk_request s cfg baseUrl pth params])"
  using assms by (simp add: makeHeFengRequest_def Let_def)

lemma handler_weather:
  assumes "HEFENG_WEATHER_API_URL cfg \<noteq> []" "parse_weather_args args = Inr (raw, d)"
  shows "handler s cfg w (weather_tool s) args =
           (Content (weather_text s raw (convertToPinyin w raw)
                       (displayLocation (fst (resolve_location s cfg w raw)))
                       (attemptPinyin (fst (resolve_location s cfg w raw))) d
                       (fst (makeHeFengRequest s cfg w (HEFENG_WEATHER_API_URL cfg) (weatherPath d)
                          [(ascii ''location'',
                            effectiveLocation (fst (resolve_location s cfg w raw)))]))),
            snd (resolve_location s cfg w raw) @
            snd (makeHeFengRequest s cfg w (HEFENG_WEATHER_API_URL cfg) (weatherPath d)
                   [(ascii ''location'', effectiveLocation (fst (resolve_location s cfg w raw)))]))"
  using assms weather_tool_not_location [of s]
  by (simp add: handler_def try_body_def tool_weather_def Let_def split: prod.splits)

lemma handler_forecast:
  assumes "HEFENG_WEATHER_API_URL cfg \<noteq> []" "HEFENG_API_KEY cfg \<noteq> []"
    "parse_weather_args args = Inr (raw, d)"
    "fetch w (forecast_request s cfg w raw d) = Resolved r" "ok r" "body_json r = Inr b"
  shows "handler s cfg w (weather_tool s) args =
           (Content (weather_text s raw (convertToPinyin w raw)
                       (displayLocation (fst (resolve_location s cfg w raw)))
                       (attemptPinyin (fst (resolve_location s cfg w raw))) d
                       (case is_ok s r of Inl e \<Rightarrow> request_catch s e | Inr x \<Rightarrow> x)),
            snd (resolve_location s cfg w raw) @ [forecast_request s cfg w raw d])"
  using assms
  by (simp add: handler_weather makeHeFengRequest_configured forecast_request_def)

lemma handler_unknown:
  assumes "name \<noteq> ascii ''get_location_id''" "name \<noteq> weather_tool s"
  shows "handler s cfg w name args =
           (Content (txt_tool_a @ name @ txt_tool_b @ ascii ''Unknown tool: '' @ name), [])"
  using assms by (simp add: handler_def try_body_def catch_block_def)

lemma is_thrown_location:
  "is_thrown (fst (handler s cfg w (ascii ''get_location_id'') args)) =
     (s \<noteq> Part_000 \<and> isl (parse_location_args args))"
  by (cases s)
     (auto simp add: handler_def try_body_def tool_location_def catch_block_def is_thrown_def
        Let_def split: sum.splits prod.splits option.splits)

lemma is_thrown_weather:
  "is_thrown (fst (handler s cfg w (weather_tool s) args)) =
     (s \<noteq> Part_000 \<and> HEFENG_WEATHER_API_URL cfg \<noteq> [] \<and> isl (parse_weather_args args))"
  using weather_tool_not_location [of s]
  by (cases s)
     (auto simp add: handler_def try_body_def tool_weather_def catch_block_def is_thrown_def
        Let_def split: sum.splits prod.splits option.splits)

subsection \<open>The lookup\<close>

lemma fetchLocationDetails_calls:
  assumes "HEFENG_API_KEY cfg \<noteq> []" "HEFENG_GEO_API_URL cfg \<noteq> []"
  shows "snd (fetchLocationDetails s cfg w c) = [geo_request s cfg c]"
  using assms
  by (simp add: fetchLocationDetails_def makeHeFengRequest_configured geo_request_def)

lemma code_error_simps [simp]:
  "code (code_error c e) = Some c" "error (code_error c e) = Some (ErrStr e)"
  "location (code_error c e) = None" "message (code_error c e) = None"
  "now (code_error c e) = None" "hourly (code_error c e) = None" "daily (code_error c e) = None"
  by (simp_all add: code_error_def empty_reply_def)

lemma code_message_simps [simp]:
  "code (code_message c e) = Some c" "error (code_message c e) = None"
  "location (code_message c e) = None" "message (code_message c e) = Some e"
  "now (code_message c e) = None" "hourly (code_message c e) = None" "daily (code_message c e) = None"
  by (simp_all add: code_message_def empty_reply_def)

lemma request_catch_no_location: "location (request_catch s e) = None"
  by (cases s) (simp_all add: request_catch_def)

lemma request_catch_error: "s \<noteq> Index_ts \<Longrightarrow> error (request_catch s e) \<noteq> None"
  by (cases s) (simp_all add: request_catch_def)

lemma common_error_no_location:
  "location (case common_error s r b of Inl e \<Rightarrow> request_catch s e | Inr d \<Rightarrow> d) = None"
  by (simp add: common_error_def request_catch_no_location)

lemma not_ok_no_location:
  "location (case not_ok s r of Inl e \<Rightarrow> request_catch s e | Inr d \<Rightarrow> d) = None"
proof (cases "body_json r")
  case (Inl m)
  then show ?thesis by (simp add: not_ok_def request_catch_no_location)
next
  case (Inr b)
  show ?thesis
  proof (cases s)
    case Index_ts
    show ?thesis unfolding Index_ts using Inr
      by (simp add: not_ok_def common_error_no_location)
  next
    case Part_000
    show ?thesis unfolding Part_000 using Inr
      by (simp add: not_ok_def common_error_no_location split: option.split err_field.split)
  next
    case Part_001
    show ?thesis unfolding Part_001 using Inr
      by (simp add: not_ok_def common_error_no_location split: option.split err_field.split)
  qed
qed

lemma lookup_rejected:
  assumes "HEFENG_API_KEY cfg \<noteq> []" "HEFENG_GEO_API_URL cfg \<noteq> []"
    "fetch w (geo_request s cfg c) = Rejected e"
  shows "fst (fetchLocationDetails s cfg w c) = None"
  using assms
  by (cases s)
     (simp_all add: fetchLocationDetails_def makeHeFengRequest_configured geo_request_def
        first_location_def request_catch_no_location request_catch_error)

lemma lookup_not_ok:
  assumes "HEFENG_API_KEY cfg \<noteq> []" "HEFENG_GEO_API_URL cfg \<noteq> []"
    "fetch w (geo_request s cfg c) = Resolved r" "\<not> ok r"
  shows "fst (fetchLocationDetails s cfg w c) = None"
  using assms
  by (cases s)
     (simp_all add: fetchLocationDetails_def makeHeFengRequest_configured geo_request_def
        first_location_def not_ok_no_location)

lemma lookup_code:
  assumes "HEFENG_API_KEY cfg \<noteq> []" "HEFENG_GEO_API_URL cfg \<noteq> []"
    "fetch w (geo_request s cfg c) = Resolved r" "ok r" "body_json r = Inr b"
    "code b \<noteq> Some (ascii ''200'')"
  shows "fst (fetchLocationDetails s cfg w c) = None"
  using assms
  by (cases s)
     (auto simp add: fetchLocationDetails_def makeHeFengRequest_configured geo_request_def
        is_ok_def)

lemma lookup_empty:
  assumes "HEFENG_API_KEY cfg \<noteq> []" "HEFENG_GEO_API_URL cfg \<noteq> []"
    "fetch w (geo_request s cfg c) = Resolved r" "ok r" "body_json r = Inr b"
    "location b = None \<or> location b = Some []"
  shows "fst (fetchLocationDetails s cfg w c) = None"
  using assms
  by (cases s)
     (auto simp add: fetchLocationDetails_def makeHeFengRequest_configured geo_request_def
        is_ok_def first_location_def)

subsection \<open>Sample data, evaluated\<close>

lemma demo_convert_path:
  "convertToPinyin (path_world g f) beijing_zh = ascii ''beijing''"
  by (simp add: convertToPinyin_def path_world_def demo_pinyin_def beijing_zh_def
        first_reading_def ascii_lower_def)

lemma demo_cfg_simps:
  "HEFENG_API_KEY demo_cfg = ascii ''k3y''"
  "HEFENG_WEATHER_API_URL demo_cfg = ascii ''https://api.example''"
  "HEFENG_GEO_API_URL demo_cfg = ascii ''https://api.example''"
  by (simp_all add: demo_cfg_def)

lemma demo_parse:
  "parse_weather_args (args_location l) = Inr (l, Now)"
  "parse_location_args (args_city c) = Inr c"
  by (simp_all add: parse_weather_args_def parse_location_args_def args_location_def
        args_city_def z_string_def z_days_def)

lemma demo_lookup_none_path:
  "fst (fetchLocationDetails Part_001 demo_cfg (path_world (ok_json no_candidates_body) f) c) = None"
  "fst (fetchLocationDetails Part_001 demo_cfg (path_world (ok_json code_404_body) f) c) = None"
  "fst (fetchLocationDetails Part_001 demo_cfg (path_world refused f) c) = None"
  by (simp_all add: fetchLocationDetails_def makeHeFengRequest_def demo_cfg_def path_world_def
        startsWith_def mk_request_def geo_path_def
        ok_json_def refused_def is_ok_def no_candidates_body_def code_404_body_def empty_reply_def
        first_location_def request_catch_def truthy_def show_opt_def)

subsection \<open>The forecast reply\<close>

lemma is_ok_200:
  assumes "body_json r = Inr b" "code b = Some (ascii ''200'')"
  shows "is_ok s r = Inr b"
  using assms by (cases s) (simp_all add: is_ok_def)

lemma handler_ok_200:
  assumes "HEFENG_WEATHER_API_URL cfg \<noteq> []" "HEFENG_API_KEY cfg \<noteq> []"
    "parse_weather_args args = Inr (raw, d)"
    "fetch w (forecast_request s cfg w raw d) = Resolved r" "ok r" "body_json r = Inr b"
    "code b = Some (ascii ''200'')" "s = Index_ts \<or> error b = None"
  shows "handler s cfg w (weather_tool s) args =
           (Content (case s of
                       Index_ts \<Rightarrow>
                         shape_index (displayLocation (fst (resolve_location s cfg w raw))) d b
                     | _ \<Rightarrow>
                         shape_parts (displayLocation (fst (resolve_location s cfg w raw))) d b),
            snd (resolve_location s cfg w raw) @ [forecast_request s cfg w raw d])"
proof -
  have "\<not> is_failure s b"
    using assms(7,8) by (cases s) (simp_all add: is_failure_def)
  then show ?thesis
    using handler_forecast [OF assms(1-6)] is_ok_200 [OF assms(6,7)]
    by (simp add: weather_text_def)
qed

lemma shape_parts_only_selected:
  "d = Now \<Longrightarrow> shape_parts x d (b \<lparr> hourly := h, daily := dl \<rparr>) = shape_parts x d b"
  "is_hourly d \<Longrightarrow> d \<noteq> Now \<Longrightarrow> shape_parts x d (b \<lparr> now := n, daily := dl \<rparr>) = shape_parts x d b"
  "\<not> is_hourly d \<Longrightarrow> d \<noteq> Now \<Longrightarrow> shape_parts x d (b \<lparr> now := n, hourly := h \<rparr>) = shape_parts x d b"
  by (simp_all add: shape_parts_def split: option.split list.split)

lemma includes_prefix: "take (length p) xs = p \<Longrightarrow> includes_str xs p"
  by (cases xs) auto

lemma includes_append: "includes_str (a @ c @ b) c"
  by (induction a) (simp_all add: includes_prefix)

lemma is_ok_business:
  assumes "body_json r = Inr b" "code b = Some c" "c \<noteq> []" "c \<noteq> ascii ''200''"
  shows "is_ok s r =
           Inr (case s of
                  Index_ts \<Rightarrow> b
                | _ \<Rightarrow> code_error c (ascii ''HeFeng API business error. Code: '' @ c))"
  using assms by (cases s) (simp_all add: is_ok_def truthy_def show_opt_def)

lemma join_empty: "join [] xs = concat xs"
  by (induction "[] :: ustring" xs rule: join.induct) simp_all

subsection \<open>Definitions to evaluate with\<close>

lemmas handler_defs =
  handler_def try_body_def tool_weather_def tool_location_def weather_tool_def catch_block_def
  resolve_location_def containsChinese_def weatherPath_def is_hourly_def
  parse_weather_args_def parse_location_args_def z_string_def z_days_def days_of_def days_str_def
  args_location_def args_location_days_def args_city_def
  makeHeFengRequest_def mk_request_def is_ok_def not_ok_def common_error_def request_catch_def
  fetchLocationDetails_def geo_path_def first_location_def
  weather_text_def is_failure_def failure_text_def shape_index_def shape_parts_def
  truthy_def show_opt_def or_opt_def or_str_def or_err_def
  code_error_def code_message_def empty_reply_def
  demo_cfg_def nokey_cfg_def const_world_def path_world_def startsWith_def ok_json_def
  refused_def
  now_body_def hourly_body_def daily_body_def

lemmas text_defs =
  nl_def lbl_place_def lbl_obsTime_def lbl_weather_def lbl_temp_def unit_celsius_def
  lbl_feelsLike_def lbl_windDir_def lbl_windScale_def unit_scale_def lbl_humidity_def
  lbl_precip_hour_def lbl_pressure_def lbl_vis_def unit_km_def

lemmas block_defs =
  nl_def divider_def lbl_time_def lbl_h_weather_def lbl_h_temp_def unit_celsius_def
  lbl_h_humidity_def lbl_h_pop_def lbl_h_wind_def unit_scale_def
  lbl_date_def lbl_sunrise_def lbl_sunset_def lbl_textDay_def lbl_textNight_def
  lbl_tempMax_def lbl_tempMin_def lbl_d_humidity_def lbl_d_precip_def lbl_windDay_def
  lbl_windNight_def lbl_uv_def

subsection \<open>Thrown errors\<close>

text \<open>
  C1, as the code has it. A call ends in a thrown \<^verbatim>\<open>Error\<close> exactly when a zod parse fails in
  \<^verbatim>\<open>index.ts\<close> or \<^verbatim>\<open>part_001\<close>: for \<^verbatim>\<open>get_location_id\<close>, or for \<^verbatim>\<open>get-weather\<close> when the
  weather base URL is configured. \<^verbatim>\<open>part_000\<close> never throws. A tool name the handler does
  not know is caught by the handler's own \<^verbatim>\<open>catch\<close> and comes back as the text of an
  internal error, with no request made.
\<close>

theorem handler_thrown_iff:
  "is_thrown (fst (handler s cfg w name args)) =
     (s \<noteq> Part_000 \<and>
      ((name = ascii ''get_location_id'' \<and> isl (parse_location_args args)) \<or>
       (name = weather_tool s \<and> HEFENG_WEATHER_API_URL cfg \<noteq> [] \<and>
        isl (parse_weather_args args))))
   \<and> (name \<noteq> ascii ''get_location_id'' \<and> name \<noteq> weather_tool s \<longrightarrow>
        handler s cfg w name args =
          (Content (txt_tool_a @ name @ txt_tool_b @ ascii ''Unknown tool: '' @ name), []))"
proof -
  consider (loc) "name = ascii ''get_location_id''" | (wea) "name = weather_tool s"
    | (unk) "name \<noteq> ascii ''get_location_id''" "name \<noteq> weather_tool s"
    by blast
  then show ?thesis
  proof cases
    case loc
    then show ?thesis
      using is_thrown_location [of s cfg w args] weather_tool_not_location [of s] by auto
  next
    case wea
    then show ?thesis
      using is_thrown_weather [of s cfg w args] weather_tool_not_location [of s] by auto
  next
    case unk
    then show ?thesis
      using handler_unknown [of name s cfg w args] by (simp add: is_thrown_def)
  qed
qed

theorem handler_thrown_iff_witness:
  "is_thrown (fst (handler Index_ts demo_cfg (const_world refused) (ascii ''get-weather'') None))
   \<and> \<not> is_thrown (fst (handler Part_000 demo_cfg (const_world refused) (ascii ''get_weather'') None))
   \<and> handler Part_001 demo_cfg (const_world refused) (ascii ''frobnicate'') None =
       (Content (txt_tool_a @ ascii ''frobnicate'' @ txt_tool_b @
                 ascii ''Unknown tool: frobnicate''), [])"
  using handler_thrown_iff [of Index_ts demo_cfg "const_world refused" "ascii ''get-weather''" None]
        handler_thrown_iff [of Part_000 demo_cfg "const_world refused" "ascii ''get_weather''" None]
        handler_thrown_iff [of Part_001 demo_cfg "const_world refused" "ascii ''frobnicate''" None]
  by (simp add: weather_tool_def demo_cfg_def parse_weather_args_def)

text \<open>
  C1 as stated fails: the unknown name \<^verbatim>\<open>frobnicate\<close> gives a normal envelope in all three
  versions, and \<^verbatim>\<open>get_location_id\<close> without arguments throws in \<^verbatim>\<open>index.ts\<close>.
\<close>

theorem unknown_tool_counterexample:
  "\<not> is_thrown (fst (handler Index_ts demo_cfg (const_world refused) (ascii ''frobnicate'') None))
   \<and> \<not> is_thrown (fst (handler Part_000 demo_cfg (const_world refused) (ascii ''frobnicate'') None))
   \<and> \<not> is_thrown (fst (handler Part_001 demo_cfg (const_world refused) (ascii ''frobnicate'') None))
   \<and> is_thrown (fst (handler Index_ts demo_cfg (const_world refused) (ascii ''get_location_id'') None))"
  by (simp add: handler_def try_body_def catch_block_def is_thrown_def weather_tool_def
        tool_location_def parse_location_args_def)

subsection \<open>Fallback to the romanized name\<close>

text \<open>
  C2. In \<^verbatim>\<open>part_001\<close>, with key and base URLs configured: when the location contains Chinese
  script and the lookup of its pinyin returns \<^verbatim>\<open>null\<close> (no candidate, a lookup error or a
  failed transport, see \<open>lookup_empty\<close>, \<open>lookup_code\<close>, \<open>lookup_not_ok\<close> and
  \<open>lookup_rejected\<close>), the weather tool makes the forecast request with the pinyin as
  \<^verbatim>\<open>location\<close> and answers with what that request gives, shown under the location and its
  pinyin in brackets. When the lookup of \<^verbatim>\<open>get_location_id\<close> returns \<^verbatim>\<open>null\<close>, the tool
  answers with the text that the location of the city was not found (written out below),
  and the lookup is the only request made.
\<close>

theorem pinyin_fallback:
  assumes "HEFENG_API_KEY cfg \<noteq> []" "HEFENG_WEATHER_API_URL cfg \<noteq> []"
    "HEFENG_GEO_API_URL cfg \<noteq> []"
    and "containsChinese raw" "parse_weather_args wargs = Inr (raw, d)"
    and "fst (fetchLocationDetails Part_001 cfg w (convertToPinyin w raw)) = None"
    and "parse_location_args largs = Inr city"
    and "fst (fetchLocationDetails Part_001 cfg w city) = None"
  shows "handler Part_001 cfg w (ascii ''get-weather'') wargs =
           (Content (weather_text Part_001 raw (convertToPinyin w raw)
                       (raw @ ascii '' ('' @ convertToPinyin w raw @ ascii '')'') True d
                       (fst (makeHeFengRequest Part_001 cfg w (HEFENG_WEATHER_API_URL cfg)
                               (weatherPath d) [(ascii ''location'', convertToPinyin w raw)]))),
            [\<lparr> url_base = HEFENG_GEO_API_URL cfg, url_path = ascii ''/v2/city/lookup'',
               query = [(ascii ''location'', convertToPinyin w raw),
                        (ascii ''key'', HEFENG_API_KEY cfg)],
               headers = [] \<rparr>,
             \<lparr> url_base = HEFENG_WEATHER_API_URL cfg,
               url_path = ascii ''/v7/weather/'' @ days_str d,
               query = [(ascii ''location'', convertToPinyin w raw),
                        (ascii ''key'', HEFENG_API_KEY cfg)],
               headers = [] \<rparr>])
         \<and> handler Part_001 cfg w (ascii ''get_location_id'') largs =
           (Content ([0x65E0, 0x6CD5, 0x627E, 0x5230, 0x57CE, 0x5E02] @ ascii '' '' @ [0x22]
                     @ city @ [0x22] @ ascii '' ''
                     @ [0x7684, 0x4F4D, 0x7F6E, 0x4FE1, 0x606F, 0x3002, 0x8BF7, 0x68C0, 0x67E5, 0x8F93]
                     @ [0x5165, 0x3001] @ ascii ''API''
                     @ [0x914D, 0x7F6E, 0x6216, 0x67E5, 0x770B, 0x670D, 0x52A1, 0x5668, 0x65E5, 0x5FD7]
                     @ [0x83B7, 0x53D6, 0x66F4, 0x591A, 0x8BE6, 0x60C5, 0x3002]),
            [\<lparr> url_base = HEFENG_GEO_API_URL cfg, url_path = ascii ''/v2/city/lookup'',
               query = [(ascii ''location'', city), (ascii ''key'', HEFENG_API_KEY cfg)],
               headers = [] \<rparr>])"
proof -
  have geo: "geo_request Part_001 cfg c =
               \<lparr> url_base = HEFENG_GEO_API_URL cfg, url_path = ascii ''/v2/city/lookup'',
                 query = [(ascii ''location'', c), (ascii ''key'', HEFENG_API_KEY cfg)],
                 headers = [] \<rparr>" for c
    by (simp add: geo_request_def mk_request_def geo_path_def)
  have pth: "weatherPath d = ascii ''/v7/weather/'' @ days_str d"
    by (simp add: weatherPath_def days_str_def)
  have res: "resolve_location Part_001 cfg w raw =
               (\<lparr> effectiveLocation = convertToPinyin w raw,
                   displayLocation = raw @ ascii '' ('' @ convertToPinyin w raw @ ascii '')'',
                   attemptPinyin = True \<rparr>,
                [geo_request Part_001 cfg (convertToPinyin w raw)])"
    using assms(1,3,4,6) fetchLocationDetails_calls [of cfg Part_001 w "convertToPinyin w raw"]
    by (simp add: resolve_location_def Let_def case_prod_beta)
  have wea: "weather_tool Part_001 = ascii ''get-weather''"
    by (simp add: weather_tool_def)
  have one: "handler Part_001 cfg w (ascii ''get-weather'') wargs =
           (Content (weather_text Part_001 raw (convertToPinyin w raw)
                       (raw @ ascii '' ('' @ convertToPinyin w raw @ ascii '')'') True d
                       (fst (makeHeFengRequest Part_001 cfg w (HEFENG_WEATHER_API_URL cfg)
                               (weatherPath d) [(ascii ''location'', convertToPinyin w raw)]))),
            [geo_request Part_001 cfg (convertToPinyin w raw),
             mk_request Part_001 cfg (HEFENG_WEATHER_API_URL cfg) (weatherPath d)
               [(ascii ''location'', convertToPinyin w raw)]])"
    using handler_weather [OF assms(2) assms(5), of Part_001 w] assms(1,2)
    by (simp add: res wea makeHeFengRequest_configured)
  have two: "handler Part_001 cfg w (ascii ''get_location_id'') largs =
           (Content (not_found_text Part_001 city), [geo_request Part_001 cfg city])"
    using assms(1,3,7,8) fetchLocationDetails_calls [of cfg Part_001 w city]
    by (simp add: handler_def try_body_def tool_location_def Let_def case_prod_beta)
  have nf: "not_found_text Part_001 city =
               [0x65E0, 0x6CD5, 0x627E, 0x5230, 0x57CE, 0x5E02] @ ascii '' '' @ [0x22] @ city
               @ [0x22] @ ascii '' ''
               @ [0x7684, 0x4F4D, 0x7F6E, 0x4FE1, 0x606F, 0x3002, 0x8BF7, 0x68C0, 0x67E5, 0x8F93]
               @ [0x5165, 0x3001] @ ascii ''API''
               @ [0x914D, 0x7F6E, 0x6216, 0x67E5, 0x770B, 0x670D, 0x52A1, 0x5668, 0x65E5, 0x5FD7]
               @ [0x83B7, 0x53D6, 0x66F4, 0x591A, 0x8BE6, 0x60C5, 0x3002]"
    by (simp add: not_found_text_def txt_not_found_city_def txt_not_found_tail_001_def)
  have req: "mk_request Part_001 cfg (HEFENG_WEATHER_API_URL cfg) (weatherPath d)
               [(ascii ''location'', convertToPinyin w raw)] =
             \<lparr> url_base = HEFENG_WEATHER_API_URL cfg,
               url_path = ascii ''/v7/weather/'' @ days_str d,
               query = [(ascii ''location'', convertToPinyin w raw),
                        (ascii ''key'', HEFENG_API_KEY cfg)],
               headers = [] \<rparr>"
    by (simp add: mk_request_def pth)
  show ?thesis
    unfolding one two nf geo req by simp
qed

text \<open>
  The three situations, with a forecast that succeeds: the lookup has no candidate, the
  lookup carries the code \<^verbatim>\<open>"404"\<close>, the lookup's connection fails. Each time the weather
  tool renders the forecast asked for \<^verbatim>\<open>beijing\<close>, and the lookup tool answers that the
  location was not found.
\<close>

theorem pinyin_fallback_witness:
  "handler Part_001 demo_cfg (path_world (ok_json no_candidates_body) (ok_json now_body)) (ascii ''get-weather'')
       (args_location beijing_zh) =
     (Content ([0x5730, 0x70B9] @ ascii '': '' @ [0x5317, 0x4EAC] @ ascii '' (beijing)''
               @ [0xA, 0x89C2, 0x6D4B, 0x65F6, 0x95F4] @ ascii '': 2024-01-01T08:00+08:00''
               @ [0xA, 0x5929, 0x6C14] @ ascii '': Cloudy'' @ [0xA, 0x6E29, 0x5EA6]
               @ ascii '': 5'' @ [0xB0] @ ascii ''C'' @ [0xA, 0x4F53, 0x611F, 0x6E29, 0x5EA6]
               @ ascii '': 2'' @ [0xB0] @ ascii ''C'' @ [0xA, 0x98CE, 0x5411] @ ascii '': N''
               @ [0xA, 0x98CE, 0x529B] @ ascii '': 3''
               @ [0x7EA7, 0xA, 0x76F8, 0x5BF9, 0x6E7F, 0x5EA6] @ ascii '': 40%''
               @ [0xA, 0x5F53, 0x524D, 0x5C0F, 0x65F6, 0x7D2F, 0x8BA1, 0x964D, 0x6C34, 0x91CF]
               @ ascii '': 0.0mm'' @ [0xA, 0x5927, 0x6C14, 0x538B, 0x5F3A] @ ascii '': 1020hPa''
               @ [0xA, 0x80FD, 0x89C1, 0x5EA6] @ ascii '': 10'' @ [0x516C, 0x91CC]),
      [\<lparr> url_base = ascii ''https://api.example'', url_path = ascii ''/v2/city/lookup'',
          query = [(ascii ''location'', ascii ''beijing''), (ascii ''key'', ascii ''k3y'')], headers = [] \<rparr>,
       \<lparr> url_base = ascii ''https://api.example'', url_path = ascii ''/v7/weather/now'',
          query = [(ascii ''location'', ascii ''beijing''), (ascii ''key'', ascii ''k3y'')],
          headers = [] \<rparr>])
   \<and> handler Part_001 demo_cfg (path_world (ok_json no_candidates_body) (ok_json now_body)) (ascii ''get_location_id'')
       (args_city beijing_zh) =
     (Content ([0x65E0, 0x6CD5, 0x627E, 0x5230, 0x57CE, 0x5E02] @ ascii '' ''
               @ [0x22, 0x5317, 0x4EAC, 0x22] @ ascii '' ''
               @ [0x7684, 0x4F4D, 0x7F6E, 0x4FE1, 0x606F, 0x3002, 0x8BF7, 0x68C0, 0x67E5, 0x8F93]
               @ [0x5165, 0x3001] @ ascii ''API''
               @ [0x914D, 0x7F6E, 0x6216, 0x67E5, 0x770B, 0x670D, 0x52A1, 0x5668, 0x65E5, 0x5FD7]
               @ [0x83B7, 0x53D6, 0x66F4, 0x591A, 0x8BE6, 0x60C5, 0x3002]),
      [\<lparr> url_base = ascii ''https://api.example'', url_path = ascii ''/v2/city/lookup'',
          query = [(ascii ''location'', [0x5317, 0x4EAC]), (ascii ''key'', ascii ''k3y'')], headers = [] \<rparr>])
   \<and> handler Part_001 demo_cfg (path_world (ok_json code_404_body) (ok_json now_body)) (ascii ''get-weather'')
       (args_location beijing_zh) =
     (Content ([0x5730, 0x70B9] @ ascii '': '' @ [0x5317, 0x4EAC] @ ascii '' (beijing)''
               @ [0xA, 0x89C2, 0x6D4B, 0x65F6, 0x95F4] @ ascii '': 2024-01-01T08:00+08:00''
               @ [0xA, 0x5929, 0x6C14] @ ascii '': Cloudy'' @ [0xA, 0x6E29, 0x5EA6]
               @ ascii '': 5'' @ [0xB0] @ ascii ''C'' @ [0xA, 0x4F53, 0x611F, 0x6E29, 0x5EA6]
               @ ascii '': 2'' @ [0xB0] @ ascii ''C'' @ [0xA, 0x98CE, 0x5411] @ ascii '': N''
               @ [0xA, 0x98CE, 0x529B] @ ascii '': 3''
               @ [0x7EA7, 0xA, 0x76F8, 0x5BF9, 0x6E7F, 0x5EA6] @ ascii '': 40%''
               @ [0xA, 0x5F53, 0x524D, 0x5C0F, 0x65F6, 0x7D2F, 0x8BA1, 0x964D, 0x6C34, 0x91CF]
               @ ascii '': 0.0mm'' @ [0xA, 0x5927, 0x6C14, 0x538B, 0x5F3A] @ ascii '': 1020hPa''
               @ [0xA, 0x80FD, 0x89C1, 0x5EA6] @ ascii '': 10'' @ [0x516C, 0x91CC]),
      [\<lparr> url_base = ascii ''https://api.example'', url_path = ascii ''/v2/city/lookup'',
          query = [(ascii ''location'', ascii ''beijing''), (ascii ''key'', ascii ''k3y'')], headers = [] \<rparr>,
       \<lparr> url_base = ascii ''https://api.example'', url_path = ascii ''/v7/weather/now'',
          query = [(ascii ''location'', ascii ''beijing''), (ascii ''key'', ascii ''k3y'')],
          headers = [] \<rparr>])
   \<and> handler Part_001 demo_cfg (path_world (ok_json code_404_body) (ok_json now_body)) (ascii ''get_location_id'')
       (args_city beijing_zh) =
     (Content ([0x65E0, 0x6CD5, 0x627E, 0x5230, 0x57CE, 0x5E02] @ ascii '' ''
               @ [0x22, 0x5317, 0x4EAC, 0x22] @ ascii '' ''
               @ [0x7684, 0x4F4D, 0x7F6E, 0x4FE1, 0x606F, 0x3002, 0x8BF7, 0x68C0, 0x67E5, 0x8F93]
               @ [0x5165, 0x3001] @ ascii ''API''
               @ [0x914D, 0x7F6E, 0x6216, 0x67E5, 0x770B, 0x670D, 0x52A1, 0x5668, 0x65E5, 0x5FD7]
               @ [0x83B7, 0x53D6, 0x66F4, 0x591A, 0x8BE6, 0x60C5, 0x3002]),
      [\<lparr> url_base = ascii ''https://api.example'', url_path = ascii ''/v2/city/lookup'',
          query = [(ascii ''location'', [0x5317, 0x4EAC]), (ascii ''key'', ascii ''k3y'')], headers = [] \<rparr>])
   \<and> handler Part_001 demo_cfg (path_world refused (ok_json now_body)) (ascii ''get-weather'')
       (args_location beijing_zh) =
     (Content ([0x5730, 0x70B9] @ ascii '': '' @ [0x5317, 0x4EAC] @ ascii '' (beijing)''
               @ [0xA, 0x89C2, 0x6D4B, 0x65F6, 0x95F4] @ ascii '': 2024-01-01T08:00+08:00''
               @ [0xA, 0x5929, 0x6C14] @ ascii '': Cloudy'' @ [0xA, 0x6E29, 0x5EA6]
               @ ascii '': 5'' @ [0xB0] @ ascii ''C'' @ [0xA, 0x4F53, 0x611F, 0x6E29, 0x5EA6]
               @ ascii '': 2'' @ [0xB0] @ ascii ''C'' @ [0xA, 0x98CE, 0x5411] @ ascii '': N''
               @ [0xA, 0x98CE, 0x529B] @ ascii '': 3''
               @ [0x7EA7, 0xA, 0x76F8, 0x5BF9, 0x6E7F, 0x5EA6] @ ascii '': 40%''
               @ [0xA, 0x5F53, 0x524D, 0x5C0F, 0x65F6, 0x7D2F, 0x8BA1, 0x964D, 0x6C34, 0x91CF]
               @ ascii '': 0.0mm'' @ [0xA, 0x5927, 0x6C14, 0x538B, 0x5F3A] @ ascii '': 1020hPa''
               @ [0xA, 0x80FD, 0x89C1, 0x5EA6] @ ascii '': 10'' @ [0x516C, 0x91CC]),
      [\<lparr> url_base = ascii ''https://api.example'', url_path = ascii ''/v2/city/lookup'',
          query = [(ascii ''location'', ascii ''beijing''), (ascii ''key'', ascii ''k3y'')], headers = [] \<rparr>,
       \<lparr> url_base = ascii ''https://api.example'', url_path = ascii ''/v7/weather/now'',
          query = [(ascii ''location'', ascii ''beijing''), (ascii ''key'', ascii ''k3y'')],
          headers = [] \<rparr>])
   \<and> handler Part_001 demo_cfg (path_world refused (ok_json now_body)) (ascii ''get_location_id'')
       (args_city beijing_zh) =
     (Content ([0x65E0, 0x6CD5, 0x627E, 0x5230, 0x57CE, 0x5E02] @ ascii '' ''
               @ [0x22, 0x5317, 0x4EAC, 0x22] @ ascii '' ''
               @ [0x7684, 0x4F4D, 0x7F6E, 0x4FE1, 0x606F, 0x3002, 0x8BF7, 0x68C0, 0x67E5, 0x8F93]
               @ [0x5165, 0x3001] @ ascii ''API''
               @ [0x914D, 0x7F6E, 0x6216, 0x67E5, 0x770B, 0x670D, 0x52A1, 0x5668, 0x65E5, 0x5FD7]
               @ [0x83B7, 0x53D6, 0x66F4, 0x591A, 0x8BE6, 0x60C5, 0x3002]),
      [\<lparr> url_base = ascii ''https://api.example'', url_path = ascii ''/v2/city/lookup'',
          query = [(ascii ''location'', [0x5317, 0x4EAC]), (ascii ''key'', ascii ''k3y'')], headers = [] \<rparr>])"
proof -
  have zh: "containsChinese beijing_zh"
    by (simp add: containsChinese_def beijing_zh_def)
  have cfg: "HEFENG_API_KEY demo_cfg \<noteq> []" "HEFENG_WEATHER_API_URL demo_cfg \<noteq> []"
    "HEFENG_GEO_API_URL demo_cfg \<noteq> []"
    by (simp_all add: demo_cfg_def)
  have none: "fst (fetchLocationDetails Part_001 demo_cfg (path_world g f)
                     (convertToPinyin (path_world g f) beijing_zh)) = None"
    "fst (fetchLocationDetails Part_001 demo_cfg (path_world g f) beijing_zh) = None"
    if "g = ok_json no_candidates_body \<or> g = ok_json code_404_body \<or> g = refused" for g f
    using that demo_lookup_none_path by auto
  note a = pinyin_fallback [OF cfg zh demo_parse(1) none(1) demo_parse(2) none(2),
      of "ok_json no_candidates_body" "ok_json now_body"]
  note b = pinyin_fallback [OF cfg zh demo_parse(1) none(1) demo_parse(2) none(2),
      of "ok_json code_404_body" "ok_json now_body"]
  note c = pinyin_fallback [OF cfg zh demo_parse(1) none(1) demo_parse(2) none(2),
      of refused "ok_json now_body"]
  show ?thesis
    using a b c
    by (simp add: handler_defs convertToPinyin_def demo_pinyin_def first_reading_def
          ascii_lower_def beijing_zh_def no_candidates_body_def code_404_body_def
          format_now_def demo_now_def text_defs not_found_text_def txt_not_found_city_def
          txt_not_found_tail_001_def)
qed

subsection \<open>Payload shape and selector\<close>

text \<open>
  C3 fails in \<^verbatim>\<open>index.ts\<close>. For \<^verbatim>\<open>days = "now"\<close> and a body \<^verbatim>\<open>{code: "200", daily: [...]}\<close>
  without \<^verbatim>\<open>now\<close>, its handler renders the daily block under the header of \<^verbatim>\<open>now\<close>: the
  branch of \<^verbatim>\<open>daily\<close> does not test the selector.
\<close>

theorem daily_rendered_for_now:
  "handler Index_ts demo_cfg (const_world (ok_json daily_body)) (ascii ''get-weather'')
     (args_location_days (ascii ''101010100'') (ascii ''now'')) =
     (Content (format_daily (ascii ''101010100'') Now [demo_day]),
      [mk_request Index_ts demo_cfg (ascii ''https://api.example'') (ascii ''/v7/weather/now'')
         [(ascii ''location'', ascii ''101010100'')]])"
  by (simp add: handler_defs)

text \<open>
  \<^verbatim>\<open>part_000\<close> and \<^verbatim>\<open>part_001\<close> branch on the selector first: the same input gives the text of
  incomplete data, and the text never depends on the members the selector does not name
  (\<open>shape_parts_only_selected\<close>).
\<close>

lemma parts_malformed_for_now: "handler Part_001 demo_cfg (const_world (ok_json daily_body)) (ascii ''get-weather'')
     (args_location_days (ascii ''101010100'') (ascii ''now'')) =
     (Content (txt_get @ ascii ''101010100'' @ txt_now_incomplete @ ascii ''200)''),
      [mk_request Part_001 demo_cfg (ascii ''https://api.example'') (ascii ''/v7/weather/now'')
         [(ascii ''location'', ascii ''101010100'')]])"
  by (simp add: handler_defs)

subsection \<open>Provider codes on an ok response\<close>

text \<open>
  C4, as the code has it. With key and weather URL configured and valid arguments: when
  the forecast response is ok and its body carries a \<^emph>\<open>non-empty\<close> code other than
  \<^verbatim>\<open>"200"\<close>, every version answers with the failure text, and that text contains the code.
  \<^verbatim>\<open>part_000\<close> and \<^verbatim>\<open>part_001\<close> first turn the body into
  \<^verbatim>\<open>{code, error: "HeFeng API business error. Code: ..."}\<close>; \<^verbatim>\<open>index.ts\<close> passes the body on.
\<close>

theorem business_error_text:
  assumes "HEFENG_WEATHER_API_URL cfg \<noteq> []" "HEFENG_API_KEY cfg \<noteq> []"
    "parse_weather_args args = Inr (raw, d)"
    "fetch w (forecast_request s cfg w raw d) = Resolved r" "ok r" "body_json r = Inr b"
    "code b = Some c" "c \<noteq> []" "c \<noteq> ascii ''200''"
  shows "fst (handler s cfg w (weather_tool s) args) =
           Content (failure_text s raw (convertToPinyin w raw)
                      (displayLocation (fst (resolve_location s cfg w raw)))
                      (attemptPinyin (fst (resolve_location s cfg w raw)))
                      (case s of
                         Index_ts \<Rightarrow> b
                       | _ \<Rightarrow> code_error c (ascii ''HeFeng API business error. Code: '' @ c)))
         \<and> includes_str
             (failure_text s raw (convertToPinyin w raw)
                      (displayLocation (fst (resolve_location s cfg w raw)))
                      (attemptPinyin (fst (resolve_location s cfg w raw)))
                      (case s of
                         Index_ts \<Rightarrow> b
                       | _ \<Rightarrow> code_error c (ascii ''HeFeng API business error. Code: '' @ c))) c"
proof -
  let ?reply = "case s of Index_ts \<Rightarrow> b
                | _ \<Rightarrow> code_error c (ascii ''HeFeng API business error. Code: '' @ c)"
  have c: "code ?reply = Some c"
    using assms(7) by (cases s) simp_all
  have f: "is_failure s ?reply"
    using assms(7,9) by (cases s) (simp_all add: is_failure_def)
  have one: "fst (handler s cfg w (weather_tool s) args) =
           Content (failure_text s raw (convertToPinyin w raw)
                      (displayLocation (fst (resolve_location s cfg w raw)))
                      (attemptPinyin (fst (resolve_location s cfg w raw))) ?reply)"
    using handler_forecast [OF assms(1-6)] is_ok_business [OF assms(6-9), of s] f
    by (simp add: weather_text_def)
  have two: "includes_str (failure_text s raw p x a ?reply) c" for p x a
  proof (cases s)
    case Index_ts
    have "includes_str ((txt_cannot_get @ x @ txt_weather_data_code) @ c @
            (ascii ''). '' @ or_opt (message b) (or_err (error b) txt_default_error))) c"
      by (rule includes_append)
    then show ?thesis
      using assms(7,8) Index_ts by (simp add: failure_text_def or_opt_def or_str_def)
  next
    case Part_000
    have "includes_str ((txt_cannot_get @ x @ txt_weather_data_status) @ c @
            (ascii ''). '' @ ascii ''HeFeng API business error. Code: '' @ c @
             txt_note_direct_a @ raw @ txt_note_direct_b)) c"
      by (rule includes_append)
    then show ?thesis
      using assms(8) Part_000
      by (simp add: failure_text_def or_opt_def or_str_def or_err_def)
  next
    case Part_001
    have "includes_str ((txt_cannot_get @ x @ txt_weather_data_status) @ c @
            (ascii ''). '' @ ascii ''HeFeng API business error. Code: '' @ c @
             (if a \<and> c \<noteq> ascii ''200''
               then txt_note_pinyin_a @ raw @ txt_note_pinyin_b @ p @ txt_note_pinyin_c
               else []))) c"
      by (rule includes_append)
    then show ?thesis
      using assms(8) Part_001
      by (simp add: failure_text_def or_opt_def or_str_def or_err_def)
  qed
  from one two show ?thesis by simp
qed

theorem business_error_text_witness:
  "fst (handler Index_ts demo_cfg (const_world (ok_json code_400_body)) (ascii ''get-weather'')
          (args_location (ascii ''101010100''))) =
     Content (txt_cannot_get @ ascii ''101010100'' @ txt_weather_data_code @ ascii ''400). '' @
              txt_default_error)
   \<and> fst (handler Part_000 demo_cfg (const_world (ok_json code_400_body)) (ascii ''get_weather'')
          (args_location (ascii ''101010100''))) =
     Content (txt_cannot_get @ ascii ''101010100'' @ txt_weather_data_status @ ascii ''400). '' @
              ascii ''HeFeng API business error. Code: 400'' @
              txt_note_direct_a @ ascii ''101010100'' @ txt_note_direct_b)"
proof -
  have cfg: "HEFENG_WEATHER_API_URL demo_cfg \<noteq> []" "HEFENG_API_KEY demo_cfg \<noteq> []"
    by (simp_all add: demo_cfg_def)
  have f: "fetch (const_world (ok_json code_400_body)) req =
             Resolved \<lparr> ok = True, status = 200, body_text = [], body_json = Inr code_400_body \<rparr>"
    for req
    by (simp add: const_world_def ok_json_def)
  note inst = business_error_text [OF cfg demo_parse(1) f, where b = code_400_body
      and c = "ascii ''400''"]
  show ?thesis
    using inst [where s = Index_ts] inst [where s = Part_000]
    by (simp add: code_400_body_def empty_reply_def weather_tool_def failure_text_def
          resolve_location_def or_opt_def or_str_def or_err_def NA_def code_error_def)
qed

text \<open>
  C4 as stated fails for the code \<^verbatim>\<open>""\<close>, which is other than \<^verbatim>\<open>"200"\<close>: the tests
  \<^verbatim>\<open>data.code && data.code !== "200"\<close> of \<^verbatim>\<open>part_000\<close> and \<^verbatim>\<open>part_001\<close> let it pass, and the
  weather is rendered.
\<close>

theorem empty_code_counterexample:
  "fst (handler Part_001 demo_cfg (const_world (ok_json empty_code_body)) (ascii ''get-weather'')
          (args_location (ascii ''101010100''))) =
     Content (format_now (ascii ''101010100'') demo_now)
   \<and> fst (handler Part_000 demo_cfg (const_world (ok_json empty_code_body)) (ascii ''get_weather'')
          (args_location (ascii ''101010100''))) =
     Content (format_now (ascii ''101010100'') demo_now)"
  by (simp add: handler_defs empty_code_body_def)

subsection \<open>The forecast path\<close>

text \<open>
  C5. With key and weather URL configured and valid arguments, the last request of the
  weather tool goes to the weather base URL with the path \<^verbatim>\<open>/v7/weather/\<close> followed by the
  selector's string (\<^verbatim>\<open>/v7/weather/now\<close> for \<^verbatim>\<open>now\<close>), and its query member \<^verbatim>\<open>location\<close> is
  the effective location, unchanged. This holds in all three versions.
\<close>

theorem forecast_path:
  assumes "HEFENG_WEATHER_API_URL cfg \<noteq> []" "HEFENG_API_KEY cfg \<noteq> []"
    "parse_weather_args args = Inr (raw, d)"
  shows "snd (handler s cfg w (weather_tool s) args) =
           snd (resolve_location s cfg w raw) @ [forecast_request s cfg w raw d]
         \<and> url_base (forecast_request s cfg w raw d) = HEFENG_WEATHER_API_URL cfg
         \<and> url_path (forecast_request s cfg w raw d) = ascii ''/v7/weather/'' @ days_str d
         \<and> (d = Now \<longrightarrow> url_path (forecast_request s cfg w raw d) = ascii ''/v7/weather/now'')
         \<and> map_of (query (forecast_request s cfg w raw d)) (ascii ''location'') =
             Some (effectiveLocation (fst (resolve_location s cfg w raw)))"
proof -
  have calls: "snd (handler s cfg w (weather_tool s) args) =
           snd (resolve_location s cfg w raw) @ [forecast_request s cfg w raw d]"
    using handler_weather [OF assms(1,3), of s w] assms(1,2)
    by (simp add: makeHeFengRequest_configured forecast_request_def)
  have pth: "weatherPath d = ascii ''/v7/weather/'' @ days_str d"
    by (simp add: weatherPath_def days_str_def)
  have req: "url_base (forecast_request s cfg w raw d) = HEFENG_WEATHER_API_URL cfg"
    "url_path (forecast_request s cfg w raw d) = weatherPath d"
    "map_of (query (forecast_request s cfg w raw d)) (ascii ''location'') =
       Some (effectiveLocation (fst (resolve_location s cfg w raw)))"
    by (cases s; simp add: forecast_request_def mk_request_def)+
  have now: "d = Now \<Longrightarrow> url_path (forecast_request s cfg w raw d) = ascii ''/v7/weather/now''"
    using req(2) by (simp add: weatherPath_def)
  show ?thesis
    using calls req(1,3) now req(2) [unfolded pth] by blast
qed

theorem forecast_path_witness:
  "snd (handler Index_ts demo_cfg (const_world refused) (ascii ''get-weather'')
          (args_location_days (ascii ''101010100'') (ascii ''72h''))) =
     [\<lparr> url_base = ascii ''https://api.example'', url_path = ascii ''/v7/weather/72h'',
        query = [(ascii ''location'', ascii ''101010100''), (ascii ''key'', ascii ''k3y'')],
        headers = [] \<rparr>]
   \<and> url_path (forecast_request Part_001 demo_cfg (const_world refused) (ascii ''101010100'') Now) =
       ascii ''/v7/weather/now''
   \<and> url_path (forecast_request Part_000 demo_cfg (const_world refused) (ascii ''101010100'') D15) =
       ascii ''/v7/weather/15d''"
proof -
  have cfg: "HEFENG_WEATHER_API_URL demo_cfg \<noteq> []" "HEFENG_API_KEY demo_cfg \<noteq> []"
    by (simp_all add: demo_cfg_def)
  have p: "parse_weather_args (args_location_days (ascii ''101010100'') (ascii ''72h'')) =
             Inr (ascii ''101010100'', H72)"
    "parse_weather_args (args_location_days (ascii ''101010100'') (ascii ''15d'')) =
             Inr (ascii ''101010100'', D15)"
    by (simp_all add: parse_weather_args_def args_location_days_def z_string_def z_days_def
          days_of_def days_str_def)
  show ?thesis
    using forecast_path [OF cfg p(1), of Index_ts "const_world refused"]
      forecast_path [OF cfg demo_parse(1), of Part_001 "const_world refused"]
      forecast_path [OF cfg p(2), of Part_000 "const_world refused"]
    by (simp add: weather_tool_def days_str_def resolve_location_def containsChinese_def
          forecast_request_def mk_request_def weatherPath_def is_hourly_def demo_cfg_def)
qed

subsection \<open>Transliteration\<close>

text \<open>
  \<^verbatim>\<open>convertToPinyin\<close> written out: the first element of each array that the \<^verbatim>\<open>pinyin\<close> package
  returns, nothing for an empty array, concatenated with nothing between them, and the
  whole passed to \<^verbatim>\<open>toLowerCase\<close>. With two readings for U+884C, the first one is taken.
\<close>

lemma convertToPinyin_first:
  "convertToPinyin w t =
     toLowerCase w (concat (map (\<lambda>arr. case arr of [] \<Rightarrow> [] | r # _ \<Rightarrow> r) (pinyin w t)))"
proof -
  have "first_reading = (\<lambda>arr. case arr of [] \<Rightarrow> [] | r # _ \<Rightarrow> r)"
    by (rule ext) (simp add: first_reading_def)
  then show ?thesis
    by (simp add: convertToPinyin_def join_empty)
qed

lemma convertToPinyin_two_readings:
  "convertToPinyin (const_world refused) [0x884C] = ascii ''xing''"
  by (simp add: convertToPinyin_def const_world_def demo_pinyin_def first_reading_def
        ascii_lower_def)

text \<open>
  C6 fails in \<^verbatim>\<open>part_001\<close>. The location U+5317, space, U+4EAC contains Chinese script, so
  the weather tool transliterates it. With a package that hands the space back as it got
  it, \<^verbatim>\<open>convertToPinyin\<close> returns \<^verbatim>\<open>bei jing\<close>, with the space, and that string is the
  location of the lookup request and, the lookup finding nothing, of the forecast request.
  The function removes no space, though its comment says lowercase, no spaces.
\<close>

theorem convertToPinyin_keeps_space:
  "containsChinese bei_jing_zh
   \<and> convertToPinyin (path_world (ok_json no_candidates_body) (ok_json now_body)) bei_jing_zh =
       ascii ''bei jing''
   \<and> snd (handler Part_001 demo_cfg (path_world (ok_json no_candidates_body) (ok_json now_body))
            (ascii ''get-weather'') (args_location bei_jing_zh)) =
       [\<lparr> url_base = ascii ''https://api.example'', url_path = ascii ''/v2/city/lookup'',
          query = [(ascii ''location'', ascii ''bei jing''), (ascii ''key'', ascii ''k3y'')],
          headers = [] \<rparr>,
        \<lparr> url_base = ascii ''https://api.example'', url_path = ascii ''/v7/weather/now'',
          query = [(ascii ''location'', ascii ''bei jing''), (ascii ''key'', ascii ''k3y'')],
          headers = [] \<rparr>]"
  by (simp add: handler_defs convertToPinyin_def demo_pinyin_def first_reading_def
        ascii_lower_def bei_jing_zh_def no_candidates_body_def Let_def)

subsection \<open>Missing configuration\<close>

text \<open>
  C7. When the API key or the base URL passed to \<^verbatim>\<open>makeHeFengRequest\<close> is empty, the
  function returns the configuration error with code \<^verbatim>\<open>"500"\<close> at once, and the list of
  requests passed to \<^verbatim>\<open>fetch\<close> is empty: no network I/O takes place. This holds in all
  three versions.
\<close>

theorem makeHeFengRequest_unconfigured:
  assumes "HEFENG_API_KEY cfg = [] \<or> baseUrl = []"
  shows "makeHeFengRequest s cfg w baseUrl pth params =
           (code_error (ascii ''500'')
              (if HEFENG_API_KEY cfg = [] then ascii ''API Key not configured''
               else ascii ''API Base URL not configured''), [])"
  using assms by (auto simp: makeHeFengRequest_def)

theorem makeHeFengRequest_unconfigured_witness:
  "makeHeFengRequest Part_000 nokey_cfg (const_world refused) (ascii ''https://api.example'')
     (ascii ''/v7/weather/now'') [(ascii ''location'', ascii ''101010100'')] =
     (code_error (ascii ''500'') (ascii ''API Key not configured''), [])
   \<and> makeHeFengRequest Index_ts demo_cfg (const_world refused) []
     (ascii ''/v7/weather/now'') [(ascii ''location'', ascii ''101010100'')] =
     (code_error (ascii ''500'') (ascii ''API Base URL not configured''), [])"
  using makeHeFengRequest_unconfigured [of nokey_cfg "ascii ''https://api.example''" Part_000]
        makeHeFengRequest_unconfigured [of demo_cfg "[]" Index_ts]
  by (simp add: nokey_cfg_def demo_cfg_def)

subsection \<open>The instant block\<close>

text \<open>
  C8, as the code has it. With key and weather URL configured, valid arguments with the
  selector \<^verbatim>\<open>now\<close>, and an ok forecast response with code \<^verbatim>\<open>"200"\<close> and the record
  \<^verbatim>\<open>now\<close>, the text is eleven lines: a first line naming the location, then one labelled
  line each for observation time, condition text, temperature, feels-like temperature,
  wind direction, wind scale, humidity, precipitation, pressure and visibility.
\<close>

theorem instant_block:
  assumes "HEFENG_WEATHER_API_URL cfg \<noteq> []" "HEFENG_API_KEY cfg \<noteq> []"
    "parse_weather_args args = Inr (raw, Now)"
    "fetch w (forecast_request s cfg w raw Now) = Resolved r" "ok r" "body_json r = Inr b"
    "code b = Some (ascii ''200'')" "s = Index_ts \<or> error b = None"
    "now b = Some n"
  shows "fst (handler s cfg w (weather_tool s) args) =
           Content (join nl
             [lbl_place @ displayLocation (fst (resolve_location s cfg w raw)),
              lbl_obsTime @ obsTime n,
              lbl_weather @ now_text n,
              lbl_temp @ now_temp n @ unit_celsius,
              lbl_feelsLike @ feelsLike n @ unit_celsius,
              lbl_windDir @ now_windDir n,
              lbl_windScale @ now_windScale n @ unit_scale,
              lbl_humidity @ now_humidity n @ ascii ''%'',
              lbl_precip_hour @ now_precip n @ ascii ''mm'',
              lbl_pressure @ now_pressure n @ ascii ''hPa'',
              lbl_vis @ now_vis n @ unit_km])"
  using handler_ok_200 [OF assms(1-8)] assms(9)
  by (cases s) (simp_all add: shape_index_def shape_parts_def format_now_def)

theorem instant_block_witness:
  "fst (handler Index_ts demo_cfg (const_world (ok_json now_body)) (ascii ''get-weather'')
          (args_location_days (ascii ''101010100'') (ascii ''now''))) =
     Content (join nl
       [lbl_place @ ascii ''101010100'',
        lbl_obsTime @ ascii ''2024-01-01T08:00+08:00'',
        lbl_weather @ ascii ''Cloudy'',
        lbl_temp @ ascii ''5'' @ unit_celsius,
        lbl_feelsLike @ ascii ''2'' @ unit_celsius,
        lbl_windDir @ ascii ''N'',
        lbl_windScale @ ascii ''3'' @ unit_scale,
        lbl_humidity @ ascii ''40%'',
        lbl_precip_hour @ ascii ''0.0mm'',
        lbl_pressure @ ascii ''1020hPa'',
        lbl_vis @ ascii ''10'' @ unit_km])"
proof -
  have cfg: "HEFENG_WEATHER_API_URL demo_cfg \<noteq> []" "HEFENG_API_KEY demo_cfg \<noteq> []"
    by (simp_all add: demo_cfg_def)
  have p: "parse_weather_args (args_location_days (ascii ''101010100'') (ascii ''now'')) =
             Inr (ascii ''101010100'', Now)"
    by (simp add: parse_weather_args_def args_location_days_def z_string_def z_days_def
          days_of_def days_str_def)
  have f: "fetch (const_world (ok_json now_body)) req =
             Resolved \<lparr> ok = True, status = 200, body_text = [], body_json = Inr now_body \<rparr>"
    for req
    by (simp add: const_world_def ok_json_def)
  show ?thesis
    using instant_block [OF cfg p f, where s = Index_ts and b = now_body and n = demo_now]
    by (simp add: now_body_def empty_reply_def weather_tool_def resolve_location_def demo_now_def)
qed

text \<open>
  C8 as stated fails: the text of the instant scenario has eleven lines, not ten.
\<close>

theorem instant_block_counterexample:
  "fst (handler Index_ts demo_cfg (const_world (ok_json now_body)) (ascii ''get-weather'')
          (args_location_days (ascii ''101010100'') (ascii ''now''))) =
     Content (format_now (ascii ''101010100'') demo_now)
   \<and> line_count (format_now (ascii ''101010100'') demo_now) = 11"
  by (simp add: handler_defs line_count_def format_now_def demo_now_def text_defs)

subsection \<open>The key in the log\<close>

text \<open>
  C9 fails at start-up. Given \<^verbatim>\<open>--apiKey=k3y\<close>, \<^verbatim>\<open>index.ts\<close> and \<^verbatim>\<open>part_001\<close> write a log
  line that ends with the key; \<^verbatim>\<open>part_000\<close> writes the same line without it.
\<close>

theorem startup_logs_key:
  "startup Index_ts demo_argv =
     (demo_cfg, [log_api_key @ ascii '': k3y'', log_api_url @ ascii ''https://api.example''])
   \<and> startup Part_001 demo_argv =
     (demo_cfg, [log_api_key @ ascii '': k3y'', log_api_url @ ascii ''https://api.example''])
   \<and> startup Part_000 demo_argv =
     (demo_cfg, [log_api_key, log_api_url @ ascii ''https://api.example''])
   \<and> includes_str (log_api_key @ ascii '': k3y'') (HEFENG_API_KEY demo_cfg)"
proof -
  have i: "includes_str (log_api_key @ ascii '': '' @ ascii ''k3y'' @ []) (ascii ''k3y'')"
    using includes_append [of "log_api_key @ ascii '': ''" "ascii ''k3y''" "[]"] by simp
  show ?thesis
    using i
    by (simp add: startup_def arg_value_def demo_argv_def startsWith_def key_log_line_def
          demo_cfg_def Let_def)
qed

subsection \<open>Absent optional fields\<close>

text \<open>
  C10. The block of an hourly record without \<^verbatim>\<open>pop\<close> has \<^verbatim>\<open>N/A\<close> where the probability of
  precipitation stands, and the block of a daily record without \<^verbatim>\<open>sunrise\<close> or
  \<^verbatim>\<open>sunset\<close> has \<^verbatim>\<open>N/A\<close> there; the rest of the block is as for any record. With key and
  weather URL configured, valid arguments and an ok forecast response with code
  \<^verbatim>\<open>"200"\<close>, a non-empty array of the selector's kind is rendered record by record under
  its header, whatever optional fields are absent: the answer is never the failure text.
  The texts are written out by code unit.
\<close>

theorem optional_fields_NA:
  assumes "HEFENG_WEATHER_API_URL cfg \<noteq> []" "HEFENG_API_KEY cfg \<noteq> []"
    "parse_weather_args args = Inr (raw, d)"
    "fetch w (forecast_request s cfg w raw d) = Resolved r" "ok r" "body_json r = Inr b"
    "code b = Some (ascii ''200'')" "s = Index_ts \<or> error b = None"
  shows "(pop hour = None \<longrightarrow>
            format_hour hour =
              [0x65F6, 0x95F4] @ ascii '': '' @ fxTime hour @ [0xA] @ ascii ''  ''
              @ [0x5929, 0x6C14] @ ascii '': '' @ h_text hour @ ascii '', '' @ [0x6E29, 0x5EA6]
              @ ascii '': '' @ h_temp hour @ [0xB0] @ ascii ''C'' @ [0xA] @ ascii ''  ''
              @ [0x6E7F, 0x5EA6] @ ascii '': '' @ h_humidity hour @ ascii ''%, ''
              @ [0x964D, 0x6C34, 0x6982, 0x7387] @ ascii '': '' @ ascii ''N/A'' @ ascii ''%''
              @ [0xA] @ ascii ''  '' @ [0x98CE, 0x5411] @ ascii '': '' @ h_windDir hour
              @ ascii '' '' @ h_windScale hour @ [0x7EA7, 0xA]
              @ ascii ''------------------------'')
       \<and> (sunrise day = None \<and> sunset day = None \<longrightarrow>
            format_day day =
              [0x65E5, 0x671F] @ ascii '': '' @ fxDate day @ ascii '' ('' @ [0x65E5, 0x51FA]
              @ ascii '': '' @ ascii ''N/A'' @ ascii '', '' @ [0x65E5, 0x843D] @ ascii '': ''
              @ ascii ''N/A'' @ ascii '')'' @ [0xA] @ ascii ''  ''
              @ [0x767D, 0x5929, 0x5929, 0x6C14] @ ascii '': '' @ textDay day @ ascii '', ''
              @ [0x591C, 0x95F4, 0x5929, 0x6C14] @ ascii '': '' @ textNight day @ [0xA]
              @ ascii ''  '' @ [0x6700, 0x9AD8, 0x6E29, 0x5EA6] @ ascii '': '' @ tempMax day
              @ [0xB0] @ ascii ''C, '' @ [0x6700, 0x4F4E, 0x6E29, 0x5EA6] @ ascii '': ''
              @ tempMin day @ [0xB0] @ ascii ''C'' @ [0xA] @ ascii ''  ''
              @ [0x76F8, 0x5BF9, 0x6E7F, 0x5EA6] @ ascii '': '' @ d_humidity day @ ascii ''%, ''
              @ [0x964D, 0x6C34, 0x91CF] @ ascii '': '' @ d_precip day @ ascii ''mm'' @ [0xA]
              @ ascii ''  '' @ [0x767D, 0x5929, 0x98CE, 0x5411] @ ascii '': '' @ windDirDay day
              @ ascii '' '' @ windScaleDay day @ [0x7EA7, 0xA] @ ascii ''  ''
              @ [0x591C, 0x95F4, 0x98CE, 0x5411] @ ascii '': '' @ windDirNight day @ ascii '' ''
              @ windScaleNight day @ [0x7EA7, 0xA] @ ascii ''  ''
              @ [0x7D2B, 0x5916, 0x7EBF, 0x6307, 0x6570] @ ascii '': '' @ uvIndex day @ [0xA]
              @ ascii ''------------------------'')
       \<and> (sunrise day = None \<and> sunset day = Some ss \<and> ss \<noteq> [] \<longrightarrow>
            format_day day =
              [0x65E5, 0x671F] @ ascii '': '' @ fxDate day @ ascii '' ('' @ [0x65E5, 0x51FA]
              @ ascii '': '' @ ascii ''N/A'' @ ascii '', '' @ [0x65E5, 0x843D] @ ascii '': ''
              @ ss @ ascii '')'' @ [0xA] @ ascii ''  '' @ [0x767D, 0x5929, 0x5929, 0x6C14]
              @ ascii '': '' @ textDay day @ ascii '', '' @ [0x591C, 0x95F4, 0x5929, 0x6C14]
              @ ascii '': '' @ textNight day @ [0xA] @ ascii ''  ''
              @ [0x6700, 0x9AD8, 0x6E29, 0x5EA6] @ ascii '': '' @ tempMax day @ [0xB0]
              @ ascii ''C, '' @ [0x6700, 0x4F4E, 0x6E29, 0x5EA6] @ ascii '': '' @ tempMin day
              @ [0xB0] @ ascii ''C'' @ [0xA] @ ascii ''  '' @ [0x76F8, 0x5BF9, 0x6E7F, 0x5EA6]
              @ ascii '': '' @ d_humidity day @ ascii ''%, '' @ [0x964D, 0x6C34, 0x91CF]
              @ ascii '': '' @ d_precip day @ ascii ''mm'' @ [0xA] @ ascii ''  ''
              @ [0x767D, 0x5929, 0x98CE, 0x5411] @ ascii '': '' @ windDirDay day @ ascii '' ''
              @ windScaleDay day @ [0x7EA7, 0xA] @ ascii ''  ''
              @ [0x591C, 0x95F4, 0x98CE, 0x5411] @ ascii '': '' @ windDirNight day @ ascii '' ''
              @ windScaleNight day @ [0x7EA7, 0xA] @ ascii ''  ''
              @ [0x7D2B, 0x5916, 0x7EBF, 0x6307, 0x6570] @ ascii '': '' @ uvIndex day @ [0xA]
              @ ascii ''------------------------'')
       \<and> (sunrise day = Some sr \<and> sr \<noteq> [] \<and> sunset day = None \<longrightarrow>
            format_day day =
              [0x65E5, 0x671F] @ ascii '': '' @ fxDate day @ ascii '' ('' @ [0x65E5, 0x51FA]
              @ ascii '': '' @ sr @ ascii '', '' @ [0x65E5, 0x843D] @ ascii '': ''
              @ ascii ''N/A'' @ ascii '')'' @ [0xA] @ ascii ''  ''
              @ [0x767D, 0x5929, 0x5929, 0x6C14] @ ascii '': '' @ textDay day @ ascii '', ''
              @ [0x591C, 0x95F4, 0x5929, 0x6C14] @ ascii '': '' @ textNight day @ [0xA]
              @ ascii ''  '' @ [0x6700, 0x9AD8, 0x6E29, 0x5EA6] @ ascii '': '' @ tempMax day
              @ [0xB0] @ ascii ''C, '' @ [0x6700, 0x4F4E, 0x6E29, 0x5EA6] @ ascii '': ''
              @ tempMin day @ [0xB0] @ ascii ''C'' @ [0xA] @ ascii ''  ''
              @ [0x76F8, 0x5BF9, 0x6E7F, 0x5EA6] @ ascii '': '' @ d_humidity day @ ascii ''%, ''
              @ [0x964D, 0x6C34, 0x91CF] @ ascii '': '' @ d_precip day @ ascii ''mm'' @ [0xA]
              @ ascii ''  '' @ [0x767D, 0x5929, 0x98CE, 0x5411] @ ascii '': '' @ windDirDay day
              @ ascii '' '' @ windScaleDay day @ [0x7EA7, 0xA] @ ascii ''  ''
              @ [0x591C, 0x95F4, 0x98CE, 0x5411] @ ascii '': '' @ windDirNight day @ ascii '' ''
              @ windScaleNight day @ [0x7EA7, 0xA] @ ascii ''  ''
              @ [0x7D2B, 0x5916, 0x7EBF, 0x6307, 0x6570] @ ascii '': '' @ uvIndex day @ [0xA]
              @ ascii ''------------------------'')
       \<and> (is_hourly d \<and> hourly b = Some hs \<and> hs \<noteq> [] \<longrightarrow>
            fst (handler s cfg w (weather_tool s) args) =
              Content ([0x5730, 0x70B9] @ ascii '': ''
                       @ displayLocation (fst (resolve_location s cfg w raw)) @ [0xA]
                       @ days_str d @ [0x5C0F, 0x65F6, 0x9884, 0x62A5] @ ascii '':'' @ [0xA]
                       @ join [0xA] (map (\<lambda>h.
                           [0x65F6, 0x95F4] @ ascii '': '' @ fxTime h @ [0xA] @ ascii ''  ''
                           @ [0x5929, 0x6C14] @ ascii '': '' @ h_text h @ ascii '', ''
                           @ [0x6E29, 0x5EA6] @ ascii '': '' @ h_temp h @ [0xB0] @ ascii ''C''
                           @ [0xA] @ ascii ''  '' @ [0x6E7F, 0x5EA6] @ ascii '': ''
                           @ h_humidity h @ ascii ''%, '' @ [0x964D, 0x6C34, 0x6982, 0x7387]
                           @ ascii '': ''
                           @ (case pop h of None \<Rightarrow> ascii ''N/A'' | Some v \<Rightarrow> if v = [] then ascii ''N/A'' else v)
                           @ ascii ''%'' @ [0xA] @ ascii ''  '' @ [0x98CE, 0x5411]
                           @ ascii '': '' @ h_windDir h @ ascii '' '' @ h_windScale h
                           @ [0x7EA7, 0xA] @ ascii ''------------------------'') hs)))
       \<and> (d \<noteq> Now \<and> \<not> is_hourly d \<and> daily b = Some ds \<and> ds \<noteq> [] \<longrightarrow>
            fst (handler s cfg w (weather_tool s) args) =
              Content ([0x5730, 0x70B9] @ ascii '': ''
                       @ displayLocation (fst (resolve_location s cfg w raw)) @ [0xA]
                       @ days_str d @ [0x9884, 0x62A5] @ ascii '':'' @ [0xA]
                       @ join [0xA] (map (\<lambda>x.
                           [0x65E5, 0x671F] @ ascii '': '' @ fxDate x @ ascii '' (''
                           @ [0x65E5, 0x51FA] @ ascii '': ''
                           @ (case sunrise x of None \<Rightarrow> ascii ''N/A'' | Some v \<Rightarrow> if v = [] then ascii ''N/A'' else v)
                           @ ascii '', '' @ [0x65E5, 0x843D] @ ascii '': ''
                           @ (case sunset x of None \<Rightarrow> ascii ''N/A'' | Some v \<Rightarrow> if v = [] then ascii ''N/A'' else v)
                           @ ascii '')'' @ [0xA] @ ascii ''  ''
                           @ [0x767D, 0x5929, 0x5929, 0x6C14] @ ascii '': '' @ textDay x
                           @ ascii '', '' @ [0x591C, 0x95F4, 0x5929, 0x6C14] @ ascii '': ''
                           @ textNight x @ [0xA] @ ascii ''  ''
                           @ [0x6700, 0x9AD8, 0x6E29, 0x5EA6] @ ascii '': '' @ tempMax x
                           @ [0xB0] @ ascii ''C, '' @ [0x6700, 0x4F4E, 0x6E29, 0x5EA6]
                           @ ascii '': '' @ tempMin x @ [0xB0] @ ascii ''C'' @ [0xA]
                           @ ascii ''  '' @ [0x76F8, 0x5BF9, 0x6E7F, 0x5EA6] @ ascii '': ''
                           @ d_humidity x @ ascii ''%, '' @ [0x964D, 0x6C34, 0x91CF]
                           @ ascii '': '' @ d_precip x @ ascii ''mm'' @ [0xA] @ ascii ''  ''
                           @ [0x767D, 0x5929, 0x98CE, 0x5411] @ ascii '': '' @ windDirDay x
                           @ ascii '' '' @ windScaleDay x @ [0x7EA7, 0xA] @ ascii ''  ''
                           @ [0x591C, 0x95F4, 0x98CE, 0x5411] @ ascii '': '' @ windDirNight x
                           @ ascii '' '' @ windScaleNight x @ [0x7EA7, 0xA] @ ascii ''  ''
                           @ [0x7D2B, 0x5916, 0x7EBF, 0x6307, 0x6570] @ ascii '': '' @ uvIndex x
                           @ [0xA] @ ascii ''------------------------'') ds)))"
proof -
  have fh: "format_hour h =
              [0x65F6, 0x95F4] @ ascii '': '' @ fxTime h @ [0xA] @ ascii ''  ''
              @ [0x5929, 0x6C14] @ ascii '': '' @ h_text h @ ascii '', '' @ [0x6E29, 0x5EA6]
              @ ascii '': '' @ h_temp h @ [0xB0] @ ascii ''C'' @ [0xA] @ ascii ''  ''
              @ [0x6E7F, 0x5EA6] @ ascii '': '' @ h_humidity h @ ascii ''%, ''
              @ [0x964D, 0x6C34, 0x6982, 0x7387] @ ascii '': ''
              @ (case pop h of None \<Rightarrow> ascii ''N/A'' | Some v \<Rightarrow> if v = [] then ascii ''N/A'' else v)
              @ ascii ''%'' @ [0xA] @ ascii ''  '' @ [0x98CE, 0x5411] @ ascii '': ''
              @ h_windDir h @ ascii '' '' @ h_windScale h @ [0x7EA7, 0xA]
              @ ascii ''------------------------''" for h
    by (simp add: format_hour_def or_opt_def or_str_def NA_def block_defs split: option.split)
  have fd: "format_day x =
              [0x65E5, 0x671F] @ ascii '': '' @ fxDate x @ ascii '' ('' @ [0x65E5, 0x51FA]
              @ ascii '': ''
              @ (case sunrise x of None \<Rightarrow> ascii ''N/A'' | Some v \<Rightarrow> if v = [] then ascii ''N/A'' else v)
              @ ascii '', '' @ [0x65E5, 0x843D] @ ascii '': ''
              @ (case sunset x of None \<Rightarrow> ascii ''N/A'' | Some v \<Rightarrow> if v = [] then ascii ''N/A'' else v)
              @ ascii '')'' @ [0xA] @ ascii ''  '' @ [0x767D, 0x5929, 0x5929, 0x6C14]
              @ ascii '': '' @ textDay x @ ascii '', '' @ [0x591C, 0x95F4, 0x5929, 0x6C14]
              @ ascii '': '' @ textNight x @ [0xA] @ ascii ''  ''
              @ [0x6700, 0x9AD8, 0x6E29, 0x5EA6] @ ascii '': '' @ tempMax x @ [0xB0]
              @ ascii ''C, '' @ [0x6700, 0x4F4E, 0x6E29, 0x5EA6] @ ascii '': '' @ tempMin x
              @ [0xB0] @ ascii ''C'' @ [0xA] @ ascii ''  '' @ [0x76F8, 0x5BF9, 0x6E7F, 0x5EA6]
              @ ascii '': '' @ d_humidity x @ ascii ''%, '' @ [0x964D, 0x6C34, 0x91CF]
              @ ascii '': '' @ d_precip x @ ascii ''mm'' @ [0xA] @ ascii ''  ''
              @ [0x767D, 0x5929, 0x98CE, 0x5411] @ ascii '': '' @ windDirDay x @ ascii '' ''
              @ windScaleDay x @ [0x7EA7, 0xA] @ ascii ''  '' @ [0x591C, 0x95F4, 0x98CE, 0x5411]
              @ ascii '': '' @ windDirNight x @ ascii '' '' @ windScaleNight x @ [0x7EA7, 0xA]
              @ ascii ''  '' @ [0x7D2B, 0x5916, 0x7EBF, 0x6307, 0x6570] @ ascii '': ''
              @ uvIndex x @ [0xA] @ ascii ''------------------------''" for x
    by (simp add: format_day_def or_opt_def or_str_def NA_def block_defs split: option.split)
  note ok = handler_ok_200 [OF assms]
  have hourly_not_now: "is_hourly d \<Longrightarrow> d \<noteq> Now"
    by (auto simp add: is_hourly_def)
  have hr: "is_hourly d \<Longrightarrow> hourly b = Some hs \<Longrightarrow> hs \<noteq> [] \<Longrightarrow>
            fst (handler s cfg w (weather_tool s) args) =
              Content (lbl_place @ displayLocation (fst (resolve_location s cfg w raw)) @ nl @
                       days_str d @ txt_hourly_header @ nl @ join nl (map format_hour hs))"
    using ok hourly_not_now
    by (cases s; cases hs) (simp_all add: shape_index_def shape_parts_def format_hourly_def)
  have dy: "d \<noteq> Now \<Longrightarrow> \<not> is_hourly d \<Longrightarrow> daily b = Some ds \<Longrightarrow> ds \<noteq> [] \<Longrightarrow>
            fst (handler s cfg w (weather_tool s) args) =
              Content (lbl_place @ displayLocation (fst (resolve_location s cfg w raw)) @ nl @
                       days_str d @ txt_daily_header @ nl @ join nl (map format_day ds))"
    using ok
    by (cases s; cases ds) (simp_all add: shape_index_def shape_parts_def format_daily_def)
  have fhs: "format_hour = (\<lambda>h.
                           [0x65F6, 0x95F4] @ ascii '': '' @ fxTime h @ [0xA] @ ascii ''  ''
                           @ [0x5929, 0x6C14] @ ascii '': '' @ h_text h @ ascii '', ''
                           @ [0x6E29, 0x5EA6] @ ascii '': '' @ h_temp h @ [0xB0] @ ascii ''C''
                           @ [0xA] @ ascii ''  '' @ [0x6E7F, 0x5EA6] @ ascii '': ''
                           @ h_humidity h @ ascii ''%, '' @ [0x964D, 0x6C34, 0x6982, 0x7387]
                           @ ascii '': ''
                           @ (case pop h of None \<Rightarrow> ascii ''N/A'' | Some v \<Rightarrow> if v = [] then ascii ''N/A'' else v)
                           @ ascii ''%'' @ [0xA] @ ascii ''  '' @ [0x98CE, 0x5411]
                           @ ascii '': '' @ h_windDir h @ ascii '' '' @ h_windScale h
                           @ [0x7EA7, 0xA] @ ascii ''------------------------'')"
    by (rule ext) (rule fh)
  have fds: "format_day = (\<lambda>x.
                           [0x65E5, 0x671F] @ ascii '': '' @ fxDate x @ ascii '' (''
                           @ [0x65E5, 0x51FA] @ ascii '': ''
                           @ (case sunrise x of None \<Rightarrow> ascii ''N/A'' | Some v \<Rightarrow> if v = [] then ascii ''N/A'' else v)
                           @ ascii '', '' @ [0x65E5, 0x843D] @ ascii '': ''
                           @ (case sunset x of None \<Rightarrow> ascii ''N/A'' | Some v \<Rightarrow> if v = [] then ascii ''N/A'' else v)
                           @ ascii '')'' @ [0xA] @ ascii ''  ''
                           @ [0x767D, 0x5929, 0x5929, 0x6C14] @ ascii '': '' @ textDay x
                           @ ascii '', '' @ [0x591C, 0x95F4, 0x5929, 0x6C14] @ ascii '': ''
                           @ textNight x @ [0xA] @ ascii ''  ''
                           @ [0x6700, 0x9AD8, 0x6E29, 0x5EA6] @ ascii '': '' @ tempMax x
                           @ [0xB0] @ ascii ''C, '' @ [0x6700, 0x4F4E, 0x6E29, 0x5EA6]
                           @ ascii '': '' @ tempMin x @ [0xB0] @ ascii ''C'' @ [0xA]
                           @ ascii ''  '' @ [0x76F8, 0x5BF9, 0x6E7F, 0x5EA6] @ ascii '': ''
                           @ d_humidity x @ ascii ''%, '' @ [0x964D, 0x6C34, 0x91CF]
                           @ ascii '': '' @ d_precip x @ ascii ''mm'' @ [0xA] @ ascii ''  ''
                           @ [0x767D, 0x5929, 0x98CE, 0x5411] @ ascii '': '' @ windDirDay x
                           @ ascii '' '' @ windScaleDay x @ [0x7EA7, 0xA] @ ascii ''  ''
                           @ [0x591C, 0x95F4, 0x98CE, 0x5411] @ ascii '': '' @ windDirNight x
                           @ ascii '' '' @ windScaleNight x @ [0x7EA7, 0xA] @ ascii ''  ''
                           @ [0x7D2B, 0x5916, 0x7EBF, 0x6307, 0x6570] @ ascii '': '' @ uvIndex x
                           @ [0xA] @ ascii ''------------------------'')"
    by (rule ext) (rule fd)
  show ?thesis
  proof (intro conjI impI)
    assume "pop hour = None"
    then show "format_hour hour =
              [0x65F6, 0x95F4] @ ascii '': '' @ fxTime hour @ [0xA] @ ascii ''  ''
              @ [0x5929, 0x6C14] @ ascii '': '' @ h_text hour @ ascii '', '' @ [0x6E29, 0x5EA6]
              @ ascii '': '' @ h_temp hour @ [0xB0] @ ascii ''C'' @ [0xA] @ ascii ''  ''
              @ [0x6E7F, 0x5EA6] @ ascii '': '' @ h_humidity hour @ ascii ''%, ''
              @ [0x964D, 0x6C34, 0x6982, 0x7387] @ ascii '': '' @ ascii ''N/A'' @ ascii ''%''
              @ [0xA] @ ascii ''  '' @ [0x98CE, 0x5411] @ ascii '': '' @ h_windDir hour
              @ ascii '' '' @ h_windScale hour @ [0x7EA7, 0xA]
              @ ascii ''------------------------''"
      by (simp add: fh)
  next
    assume "sunrise day = None \<and> sunset day = None"
    then show "format_day day =
              [0x65E5, 0x671F] @ ascii '': '' @ fxDate day @ ascii '' ('' @ [0x65E5, 0x51FA]
              @ ascii '': '' @ ascii ''N/A'' @ ascii '', '' @ [0x65E5, 0x843D] @ ascii '': ''
              @ ascii ''N/A'' @ ascii '')'' @ [0xA] @ ascii ''  ''
              @ [0x767D, 0x5929, 0x5929, 0x6C14] @ ascii '': '' @ textDay day @ ascii '', ''
              @ [0x591C, 0x95F4, 0x5929, 0x6C14] @ ascii '': '' @ textNight day @ [0xA]
              @ ascii ''  '' @ [0x6700, 0x9AD8, 0x6E29, 0x5EA6] @ ascii '': '' @ tempMax day
              @ [0xB0] @ ascii ''C, '' @ [0x6700, 0x4F4E, 0x6E29, 0x5EA6] @ ascii '': ''
              @ tempMin day @ [0xB0] @ ascii ''C'' @ [0xA] @ ascii ''  ''
              @ [0x76F8, 0x5BF9, 0x6E7F, 0x5EA6] @ ascii '': '' @ d_humidity day @ ascii ''%, ''
              @ [0x964D, 0x6C34, 0x91CF] @ ascii '': '' @ d_precip day @ ascii ''mm'' @ [0xA]
              @ ascii ''  '' @ [0x767D, 0x5929, 0x98CE, 0x5411] @ ascii '': '' @ windDirDay day
              @ ascii '' '' @ windScaleDay day @ [0x7EA7, 0xA] @ ascii ''  ''
              @ [0x591C, 0x95F4, 0x98CE, 0x5411] @ ascii '': '' @ windDirNight day @ ascii '' ''
              @ windScaleNight day @ [0x7EA7, 0xA] @ ascii ''  ''
              @ [0x7D2B, 0x5916, 0x7EBF, 0x6307, 0x6570] @ ascii '': '' @ uvIndex day @ [0xA]
              @ ascii ''------------------------''"
      by (simp add: fd)
  next
    assume "sunrise day = None \<and> sunset day = Some ss \<and> ss \<noteq> []"
    then show "format_day day =
              [0x65E5, 0x671F] @ ascii '': '' @ fxDate day @ ascii '' ('' @ [0x65E5, 0x51FA]
              @ ascii '': '' @ ascii ''N/A'' @ ascii '', '' @ [0x65E5, 0x843D] @ ascii '': ''
              @ ss @ ascii '')'' @ [0xA] @ ascii ''  '' @ [0x767D, 0x5929, 0x5929, 0x6C14]
              @ ascii '': '' @ textDay day @ ascii '', '' @ [0x591C, 0x95F4, 0x5929, 0x6C14]
              @ ascii '': '' @ textNight day @ [0xA] @ ascii ''  ''
              @ [0x6700, 0x9AD8, 0x6E29, 0x5EA6] @ ascii '': '' @ tempMax day @ [0xB0]
              @ ascii ''C, '' @ [0x6700, 0x4F4E, 0x6E29, 0x5EA6] @ ascii '': '' @ tempMin day
              @ [0xB0] @ ascii ''C'' @ [0xA] @ ascii ''  '' @ [0x76F8, 0x5BF9, 0x6E7F, 0x5EA6]
              @ ascii '': '' @ d_humidity day @ ascii ''%, '' @ [0x964D, 0x6C34, 0x91CF]
              @ ascii '': '' @ d_precip day @ ascii ''mm'' @ [0xA] @ ascii ''  ''
              @ [0x767D, 0x5929, 0x98CE, 0x5411] @ ascii '': '' @ windDirDay day @ ascii '' ''
              @ windScaleDay day @ [0x7EA7, 0xA] @ ascii ''  ''
              @ [0x591C, 0x95F4, 0x98CE, 0x5411] @ ascii '': '' @ windDirNight day @ ascii '' ''
              @ windScaleNight day @ [0x7EA7, 0xA] @ ascii ''  ''
              @ [0x7D2B, 0x5916, 0x7EBF, 0x6307, 0x6570] @ ascii '': '' @ uvIndex day @ [0xA]
              @ ascii ''------------------------''"
      by (simp add: fd)
  next
    assume "sunrise day = Some sr \<and> sr \<noteq> [] \<and> sunset day = None"
    then show "format_day day =
              [0x65E5, 0x671F] @ ascii '': '' @ fxDate day @ ascii '' ('' @ [0x65E5, 0x51FA]
              @ ascii '': '' @ sr @ ascii '', '' @ [0x65E5, 0x843D] @ ascii '': ''
              @ ascii ''N/A'' @ ascii '')'' @ [0xA] @ ascii ''  ''
              @ [0x767D, 0x5929, 0x5929, 0x6C14] @ ascii '': '' @ textDay day @ ascii '', ''
              @ [0x591C, 0x95F4, 0x5929, 0x6C14] @ ascii '': '' @ textNight day @ [0xA]
              @ ascii ''  '' @ [0x6700, 0x9AD8, 0x6E29, 0x5EA6] @ ascii '': '' @ tempMax day
              @ [0xB0] @ ascii ''C, '' @ [0x6700, 0x4F4E, 0x6E29, 0x5EA6] @ ascii '': ''
              @ tempMin day @ [0xB0] @ ascii ''C'' @ [0xA] @ ascii ''  ''
              @ [0x76F8, 0x5BF9, 0x6E7F, 0x5EA6] @ ascii '': '' @ d_humidity day @ ascii ''%, ''
              @ [0x964D, 0x6C34, 0x91CF] @ ascii '': '' @ d_precip day @ ascii ''mm'' @ [0xA]
              @ ascii ''  '' @ [0x767D, 0x5929, 0x98CE, 0x5411] @ ascii '': '' @ windDirDay day
              @ ascii '' '' @ windScaleDay day @ [0x7EA7, 0xA] @ ascii ''  ''
              @ [0x591C, 0x95F4, 0x98CE, 0x5411] @ ascii '': '' @ windDirNight day @ ascii '' ''
              @ windScaleNight day @ [0x7EA7, 0xA] @ ascii ''  ''
              @ [0x7D2B, 0x5916, 0x7EBF, 0x6307, 0x6570] @ ascii '': '' @ uvIndex day @ [0xA]
              @ ascii ''------------------------''"
      by (simp add: fd)
  next
    assume "is_hourly d \<and> hourly b = Some hs \<and> hs \<noteq> []"
    then show "fst (handler s cfg w (weather_tool s) args) =
              Content ([0x5730, 0x70B9] @ ascii '': ''
                       @ displayLocation (fst (resolve_location s cfg w raw)) @ [0xA]
                       @ days_str d @ [0x5C0F, 0x65F6, 0x9884, 0x62A5] @ ascii '':'' @ [0xA]
                       @ join [0xA] (map (\<lambda>h.
                           [0x65F6, 0x95F4] @ ascii '': '' @ fxTime h @ [0xA] @ ascii ''  ''
                           @ [0x5929, 0x6C14] @ ascii '': '' @ h_text h @ ascii '', ''
                           @ [0x6E29, 0x5EA6] @ ascii '': '' @ h_temp h @ [0xB0] @ ascii ''C''
                           @ [0xA] @ ascii ''  '' @ [0x6E7F, 0x5EA6] @ ascii '': ''
                           @ h_humidity h @ ascii ''%, '' @ [0x964D, 0x6C34, 0x6982, 0x7387]
                           @ ascii '': ''
                           @ (case pop h of None \<Rightarrow> ascii ''N/A'' | Some v \<Rightarrow> if v = [] then ascii ''N/A'' else v)
                           @ ascii ''%'' @ [0xA] @ ascii ''  '' @ [0x98CE, 0x5411]
                           @ ascii '': '' @ h_windDir h @ ascii '' '' @ h_windScale h
                           @ [0x7EA7, 0xA] @ ascii ''------------------------'') hs))"
      using hr by (simp add: fhs nl_def lbl_place_def txt_hourly_header_def)
  next
    assume "d \<noteq> Now \<and> \<not> is_hourly d \<and> daily b = Some ds \<and> ds \<noteq> []"
    then show "fst (handler s cfg w (weather_tool s) args) =
              Content ([0x5730, 0x70B9] @ ascii '': ''
                       @ displayLocation (fst (resolve_location s cfg w raw)) @ [0xA]
                       @ days_str d @ [0x9884, 0x62A5] @ ascii '':'' @ [0xA]
                       @ join [0xA] (map (\<lambda>x.
                           [0x65E5, 0x671F] @ ascii '': '' @ fxDate x @ ascii '' (''
                           @ [0x65E5, 0x51FA] @ ascii '': ''
                           @ (case sunrise x of None \<Rightarrow> ascii ''N/A'' | Some v \<Rightarrow> if v = [] then ascii ''N/A'' else v)
                           @ ascii '', '' @ [0x65E5, 0x843D] @ ascii '': ''
                           @ (case sunset x of None \<Rightarrow> ascii ''N/A'' | Some v \<Rightarrow> if v = [] then ascii ''N/A'' else v)
                           @ ascii '')'' @ [0xA] @ ascii ''  ''
                           @ [0x767D, 0x5929, 0x5929, 0x6C14] @ ascii '': '' @ textDay x
                           @ ascii '', '' @ [0x591C, 0x95F4, 0x5929, 0x6C14] @ ascii '': ''
                           @ textNight x @ [0xA] @ ascii ''  ''
                           @ [0x6700, 0x9AD8, 0x6E29, 0x5EA6] @ ascii '': '' @ tempMax x
                           @ [0xB0] @ ascii ''C, '' @ [0x6700, 0x4F4E, 0x6E29, 0x5EA6]
                           @ ascii '': '' @ tempMin x @ [0xB0] @ ascii ''C'' @ [0xA]
                           @ ascii ''  '' @ [0x76F8, 0x5BF9, 0x6E7F, 0x5EA6] @ ascii '': ''
                           @ d_humidity x @ ascii ''%, '' @ [0x964D, 0x6C34, 0x91CF]
                           @ ascii '': '' @ d_precip x @ ascii ''mm'' @ [0xA] @ ascii ''  ''
                           @ [0x767D, 0x5929, 0x98CE, 0x5411] @ ascii '': '' @ windDirDay x
                           @ ascii '' '' @ windScaleDay x @ [0x7EA7, 0xA] @ ascii ''  ''
                           @ [0x591C, 0x95F4, 0x98CE, 0x5411] @ ascii '': '' @ windDirNight x
                           @ ascii '' '' @ windScaleNight x @ [0x7EA7, 0xA] @ ascii ''  ''
                           @ [0x7D2B, 0x5916, 0x7EBF, 0x6307, 0x6570] @ ascii '': '' @ uvIndex x
                           @ [0xA] @ ascii ''------------------------'') ds))"
      using dy by (simp add: fds nl_def lbl_place_def txt_daily_header_def)
  qed
qed

text \<open>
  An hourly record without \<^verbatim>\<open>pop\<close> and a daily record without \<^verbatim>\<open>sunrise\<close> and \<^verbatim>\<open>sunset\<close>,
  alone and in the answers of \<^verbatim>\<open>part_001\<close> (24h) and \<^verbatim>\<open>index.ts\<close> (3d).
\<close>

theorem optional_fields_NA_witness:
  "format_hour demo_hour =
          [0x65F6, 0x95F4] @ ascii '': 2024-01-01T09:00+08:00'' @ [0xA] @ ascii ''  ''
          @ [0x5929, 0x6C14] @ ascii '': Sunny, '' @ [0x6E29, 0x5EA6] @ ascii '': 6'' @ [0xB0]
          @ ascii ''C'' @ [0xA] @ ascii ''  '' @ [0x6E7F, 0x5EA6] @ ascii '': 35%, ''
          @ [0x964D, 0x6C34, 0x6982, 0x7387] @ ascii '': N/A%'' @ [0xA] @ ascii ''  ''
          @ [0x98CE, 0x5411] @ ascii '': NE 2'' @ [0x7EA7, 0xA]
          @ ascii ''------------------------''
   \<and> format_day demo_day =
          [0x65E5, 0x671F] @ ascii '': 2024-01-02 ('' @ [0x65E5, 0x51FA] @ ascii '': N/A, ''
          @ [0x65E5, 0x843D] @ ascii '': N/A)'' @ [0xA] @ ascii ''  ''
          @ [0x767D, 0x5929, 0x5929, 0x6C14] @ ascii '': Sunny, ''
          @ [0x591C, 0x95F4, 0x5929, 0x6C14] @ ascii '': Clear'' @ [0xA] @ ascii ''  ''
          @ [0x6700, 0x9AD8, 0x6E29, 0x5EA6] @ ascii '': 8'' @ [0xB0] @ ascii ''C, ''
          @ [0x6700, 0x4F4E, 0x6E29, 0x5EA6] @ ascii '': -3'' @ [0xB0] @ ascii ''C'' @ [0xA]
          @ ascii ''  '' @ [0x76F8, 0x5BF9, 0x6E7F, 0x5EA6] @ ascii '': 30%, ''
          @ [0x964D, 0x6C34, 0x91CF] @ ascii '': 0.0mm'' @ [0xA] @ ascii ''  ''
          @ [0x767D, 0x5929, 0x98CE, 0x5411] @ ascii '': N 3'' @ [0x7EA7, 0xA] @ ascii ''  ''
          @ [0x591C, 0x95F4, 0x98CE, 0x5411] @ ascii '': NW 2'' @ [0x7EA7, 0xA] @ ascii ''  ''
          @ [0x7D2B, 0x5916, 0x7EBF, 0x6307, 0x6570] @ ascii '': 2'' @ [0xA]
          @ ascii ''------------------------''
   \<and> fst (handler Part_001 demo_cfg (const_world (ok_json hourly_body)) (ascii ''get-weather'')
            (args_location_days (ascii ''101010100'') (ascii ''24h''))) =
        Content ([0x5730, 0x70B9] @ ascii '': 101010100'' @ [0xA] @ ascii ''24h''
                 @ [0x5C0F, 0x65F6, 0x9884, 0x62A5] @ ascii '':'' @ [0xA, 0x65F6, 0x95F4]
                 @ ascii '': 2024-01-01T09:00+08:00'' @ [0xA] @ ascii ''  '' @ [0x5929, 0x6C14]
                 @ ascii '': Sunny, '' @ [0x6E29, 0x5EA6] @ ascii '': 6'' @ [0xB0] @ ascii ''C''
                 @ [0xA] @ ascii ''  '' @ [0x6E7F, 0x5EA6] @ ascii '': 35%, ''
                 @ [0x964D, 0x6C34, 0x6982, 0x7387] @ ascii '': N/A%'' @ [0xA] @ ascii ''  ''
                 @ [0x98CE, 0x5411] @ ascii '': NE 2'' @ [0x7EA7, 0xA]
                 @ ascii ''------------------------'')
   \<and> fst (handler Index_ts demo_cfg (const_world (ok_json daily_body)) (ascii ''get-weather'')
            (args_location_days (ascii ''101010100'') (ascii ''3d''))) =
        Content ([0x5730, 0x70B9] @ ascii '': 101010100'' @ [0xA] @ ascii ''3d''
                 @ [0x9884, 0x62A5] @ ascii '':'' @ [0xA, 0x65E5, 0x671F]
                 @ ascii '': 2024-01-02 ('' @ [0x65E5, 0x51FA] @ ascii '': N/A, ''
                 @ [0x65E5, 0x843D] @ ascii '': N/A)'' @ [0xA] @ ascii ''  ''
                 @ [0x767D, 0x5929, 0x5929, 0x6C14] @ ascii '': Sunny, ''
                 @ [0x591C, 0x95F4, 0x5929, 0x6C14] @ ascii '': Clear'' @ [0xA] @ ascii ''  ''
                 @ [0x6700, 0x9AD8, 0x6E29, 0x5EA6] @ ascii '': 8'' @ [0xB0] @ ascii ''C, ''
                 @ [0x6700, 0x4F4E, 0x6E29, 0x5EA6] @ ascii '': -3'' @ [0xB0] @ ascii ''C''
                 @ [0xA] @ ascii ''  '' @ [0x76F8, 0x5BF9, 0x6E7F, 0x5EA6] @ ascii '': 30%, ''
                 @ [0x964D, 0x6C34, 0x91CF] @ ascii '': 0.0mm'' @ [0xA] @ ascii ''  ''
                 @ [0x767D, 0x5929, 0x98CE, 0x5411] @ ascii '': N 3'' @ [0x7EA7, 0xA]
                 @ ascii ''  '' @ [0x591C, 0x95F4, 0x98CE, 0x5411] @ ascii '': NW 2''
                 @ [0x7EA7, 0xA] @ ascii ''  '' @ [0x7D2B, 0x5916, 0x7EBF, 0x6307, 0x6570]
                 @ ascii '': 2'' @ [0xA] @ ascii ''------------------------'')"
proof -
  have cfg: "HEFENG_WEATHER_API_URL demo_cfg \<noteq> []" "HEFENG_API_KEY demo_cfg \<noteq> []"
    by (simp_all add: demo_cfg_def)
  have p: "parse_weather_args (args_location_days (ascii ''101010100'') (ascii ''24h'')) =
             Inr (ascii ''101010100'', H24)"
    "parse_weather_args (args_location_days (ascii ''101010100'') (ascii ''3d'')) =
             Inr (ascii ''101010100'', D3)"
    by (simp_all add: parse_weather_args_def args_location_days_def z_string_def z_days_def
          days_of_def days_str_def)
  have f: "fetch (const_world (ok_json x)) req =
             Resolved \<lparr> ok = True, status = 200, body_text = [], body_json = Inr x \<rparr>"
    for req x
    by (simp add: const_world_def ok_json_def)
  have c: "code hourly_body = Some (ascii ''200'')" "code daily_body = Some (ascii ''200'')"
    "error hourly_body = None" "error daily_body = None"
    by (simp_all add: hourly_body_def daily_body_def empty_reply_def)
  note a = optional_fields_NA [OF cfg p(1) f _ _ c(1), where s = Part_001
      and hour = demo_hour and day = demo_day and hs = "[demo_hour]"]
  note b = optional_fields_NA [OF cfg p(2) f _ _ c(2), where s = Index_ts
      and hour = demo_hour and day = demo_day and ds = "[demo_day]"]
  show ?thesis
    using a b c
    by (simp add: hourly_body_def daily_body_def empty_reply_def weather_tool_def
          resolve_location_def containsChinese_def is_hourly_def days_str_def
          demo_hour_def demo_day_def)
qed

end
